theory Spec2Isabelle
  imports Complex_Main
begin

section \<open>JavaScript values\<close>

text \<open>
  A JavaScript number is an IEEE 754 double: \<open>NaN\<close>, one of the two infinities, or a
  finite number \<open>Fin x\<close>, where \<open>x\<close> is the real number the double stands for. The
  arithmetic operations compute the exact result and round it to the nearest double,
  ties to the even significand, as the standard prescribes. The sign of zero is not
  modelled: the only operation of the program that could tell \<open>-0\<close> from \<open>+0\<close> is a
  division by zero.
\<close>

datatype jsnum = NaN | PInf | NInf | Fin real

fun js_neg :: "jsnum \<Rightarrow> jsnum" where
  "js_neg NaN = NaN"
| "js_neg PInf = NInf"
| "js_neg NInf = PInf"
| "js_neg (Fin a) = Fin (- a)"

text \<open>\<open>signed_inf p\<close> is \<open>+Infinity\<close> when \<open>p\<close> holds and \<open>-Infinity\<close> otherwise.\<close>

definition signed_inf :: "bool \<Rightarrow> jsnum" where
  "signed_inf p = (if p then PInf else NInf)"

text \<open>The nearest integer, a tie going to the even one.\<close>

definition rne :: "real \<Rightarrow> int" where
  "rne z =
     (let f = \<lfloor>z\<rfloor>
      in if z - of_int f < 1 / 2 then f
         else if 1 / 2 < z - of_int f then f + 1
         else if even f then f else f + 1)"

text \<open>
  The spacing of the doubles around \<open>x \<noteq> 0\<close>: with \<open>2 ^ k \<le> \<bar>x\<bar> < 2 ^ (k + 1)\<close> it is
  \<open>2 ^ (k - 52)\<close>, and \<open>2 ^ - 1074\<close> in the subnormal range.
\<close>

definition quantum :: "real \<Rightarrow> real" where
  "quantum x = 2 powr of_int (max (\<lfloor>log 2 \<bar>x\<bar>\<rfloor> - 52) (- 1074))"

text \<open>
  Rounding a real number to a double: to the nearest multiple of the spacing, and to an
  infinity when that multiple is beyond the largest double.
\<close>

definition round64 :: "real \<Rightarrow> jsnum" where
  "round64 x =
     (if x = 0 then Fin 0
      else let y = of_int (rne (x / quantum x)) * quantum x
           in if 2 ^ 1024 \<le> \<bar>y\<bar> then signed_inf (0 < x) else Fin y)"

fun js_add :: "jsnum \<Rightarrow> jsnum \<Rightarrow> jsnum" where
  "js_add (Fin a) (Fin b) = round64 (a + b)"
| "js_add NaN y = NaN"
| "js_add x NaN = NaN"
| "js_add PInf NInf = NaN"
| "js_add NInf PInf = NaN"
| "js_add PInf y = PInf"
| "js_add NInf y = NInf"
| "js_add (Fin a) y = y"

fun js_mul :: "jsnum \<Rightarrow> jsnum \<Rightarrow> jsnum" where
  "js_mul (Fin a) (Fin b) = round64 (a * b)"
| "js_mul NaN y = NaN"
| "js_mul x NaN = NaN"
| "js_mul PInf (Fin b) = (if b = 0 then NaN else signed_inf (0 < b))"
| "js_mul NInf (Fin b) = (if b = 0 then NaN else signed_inf (b < 0))"
| "js_mul (Fin a) PInf = (if a = 0 then NaN else signed_inf (0 < a))"
| "js_mul (Fin a) NInf = (if a = 0 then NaN else signed_inf (a < 0))"
| "js_mul PInf PInf = PInf"
| "js_mul NInf NInf = PInf"
| "js_mul PInf NInf = NInf"
| "js_mul NInf PInf = NInf"

text \<open>
  Division never raises in JavaScript: a finite nonzero number divided by zero is an
  infinity with the sign of the dividend (the zero taken as \<open>+0\<close>), and \<open>0 / 0\<close> is \<open>NaN\<close>.
\<close>

fun js_div :: "jsnum \<Rightarrow> jsnum \<Rightarrow> jsnum" where
  "js_div (Fin a) (Fin b) =
     (if b = 0 then (if a = 0 then NaN else signed_inf (0 < a)) else round64 (a / b))"
| "js_div NaN y = NaN"
| "js_div x NaN = NaN"
| "js_div (Fin a) PInf = Fin 0"
| "js_div (Fin a) NInf = Fin 0"
| "js_div PInf (Fin b) = signed_inf (0 \<le> b)"
| "js_div NInf (Fin b) = signed_inf (b < 0)"
| "js_div PInf y = NaN"
| "js_div NInf y = NaN"

definition js_isNaN :: "jsnum \<Rightarrow> bool" where
  "js_isNaN x = (x = NaN)"

fun is_finite :: "jsnum \<Rightarrow> bool" where
  "is_finite (Fin a) = True"
| "is_finite x = False"

text \<open>
  \<open>Math.cos\<close> and \<open>Math.sin\<close> are approximations that the language leaves to the engine;
  \<open>mcos\<close> and \<open>msin\<close> are what the engine at hand returns for a finite argument other
  than zero. The language fixes the rest: the cosine of zero is \<open>1\<close>, the sine of zero is
  zero, and both are \<open>NaN\<close> at \<open>NaN\<close> and at the infinities.
\<close>

record engine =
  mcos :: "real \<Rightarrow> real"
  msin :: "real \<Rightarrow> real"

fun js_cos :: "engine \<Rightarrow> jsnum \<Rightarrow> jsnum" where
  "js_cos m (Fin a) = (if a = 0 then Fin 1 else Fin (mcos m a))"
| "js_cos m x = NaN"

fun js_sin :: "engine \<Rightarrow> jsnum \<Rightarrow> jsnum" where
  "js_sin m (Fin a) = (if a = 0 then Fin 0 else Fin (msin m a))"
| "js_sin m x = NaN"

text \<open>The doubles that \<open>Math.PI\<close> and the literal \<open>0.02\<close> denote.\<close>

definition MathPI :: real where
  "MathPI = 884279719003555 / 2 ^ 48"

text \<open>
  A parsed JSON document, which is also the shape of the object literals the program
  builds. An object is the list of its own properties; \<open>undefined\<close> is not a JSON value
  and appears as \<open>None\<close> where a property is read.
\<close>

datatype json =
    JNull
  | JBool bool
  | JNum jsnum
  | JStr string
  | JArr "json list"
  | JObj "(string \<times> json) list"

section \<open>Geometry approximator\<close>

record feature =
  ftype :: string
  postcode :: string
  geometry :: json

definition radius :: real where
  "radius = 5764607523034235 / 2 ^ 58"

definition points :: nat where
  "points = 20"

text \<open>The angle \<open>(i / points) * 2 * Math.PI\<close> of the \<open>i\<close>-th vertex.\<close>

definition angle :: "nat \<Rightarrow> jsnum" where
  "angle i = js_mul (js_mul (js_div (Fin (real i)) (Fin (real points))) (Fin 2)) (Fin MathPI)"

text \<open>
  The divisor \<open>Math.cos(lat * Math.PI / 180)\<close> of the longitude offset.
\<close>

definition lonDivisor :: "engine \<Rightarrow> jsnum \<Rightarrow> jsnum" where
  "lonDivisor m lat = js_cos m (js_div (js_mul lat (Fin MathPI)) (Fin 180))"

text \<open>One iteration of the loop: the pair \<open>[lat + latOffset, lon + lonOffset]\<close>.\<close>

definition vertex :: "engine \<Rightarrow> jsnum \<Rightarrow> jsnum \<Rightarrow> nat \<Rightarrow> jsnum \<times> jsnum" where
  "vertex m lat lon i =
     (let latOffset = js_mul (Fin radius) (js_cos m (angle i));
          lonOffset = js_div (js_mul (Fin radius) (js_sin m (angle i))) (lonDivisor m lat)
      in (js_add lat latOffset, js_add lon lonOffset))"

text \<open>The loop \<open>for (let i = 0; i < points; i++) coordinates.push(...)\<close>.\<close>

function pushVertices ::
  "engine \<Rightarrow> jsnum \<Rightarrow> jsnum \<Rightarrow> nat \<Rightarrow> (jsnum \<times> jsnum) list \<Rightarrow> (jsnum \<times> jsnum) list" where
  "pushVertices m lat lon i coordinates =
     (if i < points then pushVertices m lat lon (i + 1) (coordinates @ [vertex m lat lon i])
      else coordinates)"
  by pat_completeness auto
termination
  by (relation "measure (\<lambda>(m, lat, lon, i, coordinates). points - i)") auto

declare pushVertices.simps [simp del]

text \<open>
  The ring handed to GeoJSON: the loop's pairs, closed by \<open>coordinates.push(coordinates[0])\<close>
  and re-expressed as \<open>[lon, lat]\<close> by \<open>coordinates.map(c => [c[1], c[0]])\<close>.
\<close>

definition polygonRing :: "engine \<Rightarrow> jsnum \<Rightarrow> jsnum \<Rightarrow> (jsnum \<times> jsnum) list" where
  "polygonRing m lat lon =
     (let coordinates = pushVertices m lat lon 0 [];
          closed = coordinates @ [coordinates ! 0]
      in map (\<lambda>c. (snd c, fst c)) closed)"

definition ringJson :: "(jsnum \<times> jsnum) list \<Rightarrow> json" where
  "ringJson r = JArr (map (\<lambda>p. JArr [JNum (fst p), JNum (snd p)]) r)"

definition createApproximatePolygon :: "engine \<Rightarrow> jsnum \<Rightarrow> jsnum \<Rightarrow> string \<Rightarrow> feature" where
  "createApproximatePolygon m lat lon zipcode =
     \<lparr> ftype = ''Feature'',
       postcode = zipcode,
       geometry = JObj [(''type'', JStr ''Polygon''),
                        (''coordinates'', JArr [ringJson (polygonRing m lat lon)])] \<rparr>"

section \<open>Reading JavaScript values\<close>

datatype exn = TypeError | LeafletError

text \<open>Truthiness of a value in a condition; \<open>None\<close> is \<open>undefined\<close>.\<close>

fun js_truthy :: "json option \<Rightarrow> bool" where
  "js_truthy None = False"
| "js_truthy (Some JNull) = False"
| "js_truthy (Some (JBool b)) = b"
| "js_truthy (Some (JNum n)) = (n \<noteq> NaN \<and> n \<noteq> Fin 0)"
| "js_truthy (Some (JStr s)) = (s \<noteq> [])"
| "js_truthy (Some (JArr xs)) = True"
| "js_truthy (Some (JObj kvs)) = True"

text \<open>
  \<open>v.name\<close> on a value that is neither \<open>null\<close> nor \<open>undefined\<close>, for the property names
  the program reads that no built-in prototype defines (\<open>response\<close>, \<open>docs\<close>,
  \<open>centroide_ll\<close>, \<open>geojson\<close>, \<open>coordinates\<close>): only an object can have them.
\<close>

fun js_field :: "string \<Rightarrow> json \<Rightarrow> json option" where
  "js_field name (JObj kvs) = map_of kvs name"
| "js_field name v = None"

text \<open>\<open>v.length\<close>: built in for strings and arrays, an ordinary property of an object.\<close>

fun js_length :: "json \<Rightarrow> json option" where
  "js_length (JStr s) = Some (JNum (Fin (real (length s))))"
| "js_length (JArr xs) = Some (JNum (Fin (real (length xs))))"
| "js_length (JObj kvs) = map_of kvs ''length''"
| "js_length v = None"

text \<open>The property key of an array index: its decimal numeral.\<close>

function index_key :: "nat \<Rightarrow> string" where
  "index_key i =
     (if i < 10 then [char_of (48 + i)]
      else index_key (i div 10) @ [char_of (48 + i mod 10)])"
  by pat_completeness auto
termination
  by (relation "measure (\<lambda>i. i)") auto

declare index_key.simps [simp del]

text \<open>\<open>v[i]\<close>: an element of an array, a character of a string, a property of an object.\<close>

fun js_index :: "nat \<Rightarrow> json \<Rightarrow> json option" where
  "js_index i (JArr xs) = (if i < length xs then Some (xs ! i) else None)"
| "js_index i (JStr s) = (if i < length s then Some (JStr [s ! i]) else None)"
| "js_index i (JObj kvs) = map_of kvs (index_key i)"
| "js_index i v = None"

text \<open>
  A property read \<open>base.p\<close> raises a \<open>TypeError\<close> on \<open>null\<close> and \<open>undefined\<close>; the
  optional chain \<open>base?.p\<close> yields \<open>undefined\<close> there.
\<close>

definition js_get :: "json option \<Rightarrow> (json \<Rightarrow> json option) \<Rightarrow> exn + json option" where
  "js_get base rd =
     (case base of
        None \<Rightarrow> Inl TypeError
      | Some JNull \<Rightarrow> Inl TypeError
      | Some v \<Rightarrow> Inr (rd v))"

definition js_get_opt :: "json option \<Rightarrow> (json \<Rightarrow> json option) \<Rightarrow> json option" where
  "js_get_opt base rd =
     (case base of
        None \<Rightarrow> None
      | Some JNull \<Rightarrow> None
      | Some v \<Rightarrow> rd v)"

subsection \<open>\<open>Number(string)\<close>\<close>

definition is_ws :: "char \<Rightarrow> bool" where
  "is_ws c = (c \<in> {CHR 0x09, CHR 0x0A, CHR 0x0B, CHR 0x0C, CHR 0x0D, CHR 0x20, CHR 0xA0})"

text \<open>\<open>String.prototype.trim\<close>, on strings of code units below 256.\<close>

definition js_trim :: "string \<Rightarrow> string" where
  "js_trim s = rev (dropWhile is_ws (rev (dropWhile is_ws s)))"

definition is_digit :: "char \<Rightarrow> bool" where
  "is_digit c = (c \<in> set ''0123456789'')"

definition digit_val :: "char \<Rightarrow> nat" where
  "digit_val c = of_char c - 48"

definition dec_value :: "string \<Rightarrow> nat" where
  "dec_value ds = foldl (\<lambda>a c. 10 * a + digit_val c) 0 ds"

definition radix_digit :: "char \<Rightarrow> nat option" where
  "radix_digit c =
     (if is_digit c then Some (of_char c - 48)
      else if c \<in> set ''abcdef'' then Some (of_char c - 87)
      else if c \<in> set ''ABCDEF'' then Some (of_char c - 55)
      else None)"

fun radix_value :: "nat \<Rightarrow> nat \<Rightarrow> string \<Rightarrow> nat option" where
  "radix_value b a [] = Some a"
| "radix_value b a (c # cs) =
     (case radix_digit c of
        None \<Rightarrow> None
      | Some d \<Rightarrow> if d < b then radix_value b (b * a + d) cs else None)"

text \<open>The literals \<open>0x\<dots>\<close>, \<open>0o\<dots>\<close> and \<open>0b\<dots>\<close>, which take no sign.\<close>

fun radix_literal :: "string \<Rightarrow> nat option" where
  "radix_literal (z # p # d # ds) =
     (if z \<noteq> CHR ''0'' then None
      else if p \<in> set ''xX'' then radix_value 16 0 (d # ds)
      else if p \<in> set ''oO'' then radix_value 8 0 (d # ds)
      else if p \<in> set ''bB'' then radix_value 2 0 (d # ds)
      else None)"
| "radix_literal s = None"

text \<open>The exponent part of a decimal literal: empty, or \<open>e\<close> with an optionally signed numeral.\<close>

fun exponent :: "string \<Rightarrow> int option" where
  "exponent [] = Some 0"
| "exponent (e # t) =
     (if e \<notin> set ''eE'' then None
      else let neg = (t \<noteq> [] \<and> hd t = CHR ''-'');
               ds = (if t \<noteq> [] \<and> hd t \<in> set ''+-'' then tl t else t)
           in if ds \<noteq> [] \<and> filter is_digit ds = ds
              then Some (if neg then - int (dec_value ds) else int (dec_value ds))
              else None)"

definition scale10 :: "real \<Rightarrow> int \<Rightarrow> real" where
  "scale10 x e = (if 0 \<le> e then x * 10 ^ nat e else x / 10 ^ nat (- e))"

text \<open>
  The value of an unsigned decimal literal as the real number it denotes, \<open>NaN\<close> for a
  string that is none.
\<close>

definition unsigned_decimal :: "string \<Rightarrow> jsnum" where
  "unsigned_decimal s =
     (let ip = takeWhile is_digit s;
          r1 = dropWhile is_digit s;
          dot = (r1 \<noteq> [] \<and> hd r1 = CHR ''.'');
          fp = (if dot then takeWhile is_digit (tl r1) else []);
          r2 = (if dot then dropWhile is_digit (tl r1) else r1)
      in if ip = [] \<and> fp = [] then NaN
         else (case exponent r2 of
                 None \<Rightarrow> NaN
               | Some e \<Rightarrow>
                   Fin (scale10 (real (dec_value ip) + real (dec_value fp) / 10 ^ length fp) e)))"

definition str_decimal :: "string \<Rightarrow> jsnum" where
  "str_decimal s = (if s = ''Infinity'' then PInf else unsigned_decimal s)"

text \<open>
  The numeric value of a string before rounding: surrounding white space is dropped, the
  empty string is \<open>0\<close>, and anything that is not a numeric literal is \<open>NaN\<close>.
\<close>

definition number_literal :: "string \<Rightarrow> jsnum" where
  "number_literal s =
     (let t = js_trim s
      in if t = [] then Fin 0
         else (case radix_literal t of
                 Some n \<Rightarrow> Fin (real n)
               | None \<Rightarrow>
                   if hd t = CHR ''+'' then str_decimal (tl t)
                   else if hd t = CHR ''-'' then js_neg (str_decimal (tl t))
                   else str_decimal t))"

text \<open>\<open>Number(s)\<close> for a string: the numeric value, rounded to a double.\<close>

definition js_Number :: "string \<Rightarrow> jsnum" where
  "js_Number s = (case number_literal s of Fin x \<Rightarrow> round64 x | v \<Rightarrow> v)"

text \<open>
  The conversion to a number that \<open>x > 0\<close> applies to its left operand. An object and
  an array are converted through their string, an array's being the join of its
  elements' strings. A parsed document has no function in it, so an object with a
  property \<open>toString\<close> of its own has no usable conversion and the attempt raises a
  \<open>TypeError\<close>, also from inside an array.
\<close>

fun toStringRaises :: "json \<Rightarrow> bool" where
  "toStringRaises (JObj kvs) = (map_of kvs ''toString'' \<noteq> None)"
| "toStringRaises (JArr xs) = list_ex toStringRaises xs"
| "toStringRaises v = False"

fun numberOf :: "json \<Rightarrow> jsnum" where
  "numberOf JNull = Fin 0"
| "numberOf (JBool b) = Fin (if b then 1 else 0)"
| "numberOf (JNum n) = n"
| "numberOf (JStr s) = js_Number s"
| "numberOf (JObj kvs) = NaN"
| "numberOf (JArr []) = Fin 0"
| "numberOf (JArr [JNull]) = Fin 0"
| "numberOf (JArr [JBool b]) = NaN"
| "numberOf (JArr [JNum n]) = n"
| "numberOf (JArr [JStr s]) = js_Number s"
| "numberOf (JArr [JObj kvs]) = NaN"
| "numberOf (JArr [JArr ys]) = numberOf (JArr ys)"
| "numberOf (JArr (x # y # zs)) = NaN"

definition js_ToNumber :: "json \<Rightarrow> exn + jsnum" where
  "js_ToNumber v = (if toStringRaises v then Inl TypeError else Inr (numberOf v))"

text \<open>\<open>x > 0\<close>, false when \<open>x\<close> is \<open>undefined\<close> or converts to \<open>NaN\<close>.\<close>

definition js_gt0 :: "json option \<Rightarrow> exn + bool" where
  "js_gt0 x =
     (case x of
        None \<Rightarrow> Inr False
      | Some v \<Rightarrow>
          (case js_ToNumber v of
             Inl ex \<Rightarrow> Inl ex
           | Inr n \<Rightarrow> Inr (case n of Fin a \<Rightarrow> 0 < a | PInf \<Rightarrow> True | _ \<Rightarrow> False)))"

section \<open>The page and its collaborators\<close>

text \<open>
  \<open>fetch(url)\<close> followed by \<open>response.json()\<close>: either of the two raises (no connection,
  a body that is not JSON), or a document is delivered.
\<close>

datatype reply = Throws | Body json

record pathStyle =
  sFillColor :: string
  sFillOpacity :: real
  sColor :: string
  sWeight :: real

text \<open>A layer built by \<open>L.geoJSON\<close>: the feature drawn, its style and the popup bound to it.\<close>

record layer =
  drawn :: feature
  style :: pathStyle
  popup :: "string option"

datatype fit_target =
    LayerBounds "layer list"
  | CoordBounds "(json option \<times> json option) list"

text \<open>
  The texts of the status line and of the search result, by what they say:
  \<open>LoadingAll\<close> is "Loading zip codes...", \<open>Loading z\<close> is "Loading: z...", \<open>Loaded s f\<close> is
  "Loaded s zip codes successfully" followed by ", f failed" when \<open>f > 0\<close>;
  \<open>Blank\<close> is the empty text, \<open>Checking\<close> is "Checking...", \<open>InvalidInput\<close> is "Please enter
  a valid 4-digit zipcode", \<open>Polluted\<close> is "Your water supply might be polluted!",
  \<open>Safe\<close> is "Your water supply is safe to drink!" and \<open>SearchError\<close> is "Error
  searching zipcode".
\<close>

datatype status = LoadingAll | Loading string | Loaded nat nat

datatype result = Blank | Checking | InvalidInput | Polluted | Safe | SearchError

text \<open>What the program does to the outside, in the order it does it.\<close>

datatype event =
    Fetch string "(string \<times> string) list"
  | ConsoleError string
  | ConsoleWarn string
  | Delay nat
  | FitBounds fit_target "nat \<times> nat"
  | StatusText status
  | ResultText result

text \<open>
  The services, the map library and the engine's mathematics are not part of the
  program. \<open>net n url\<close> is the reply to a request for \<open>url\<close> issued when \<open>n\<close> requests went
  before it; the three predicates say on which arguments a call into the map library
  raises.
\<close>

record env =
  net :: "nat \<Rightarrow> string \<Rightarrow> reply"
  math :: engine
  geoJSON_raises :: "feature \<Rightarrow> bool"
  latLngBounds_raises :: "(json option \<times> json option) list \<Rightarrow> bool"
  fitBounds_raises :: "fit_target \<Rightarrow> bool"

text \<open>
  The state of the page: the texts of the elements \<open>status\<close> and \<open>searchResult\<close> (\<open>None\<close>
  when the document has no such element), the two layer groups, the number of requests
  issued and the events so far.
\<close>

record page =
  statusDiv :: "status option"
  resultDiv :: "result option"
  layerGroup :: "layer list"
  searchLayerGroup :: "layer list"
  requests :: nat
  trace :: "event list"

record mapConfig =
  center :: "real \<times> real"
  zoom :: real
  fillColor :: string
  fillOpacity :: real
  strokeColor :: string
  strokeWeight :: real

record config =
  zipcodes :: "string list"
  mapConfig :: mapConfig

definition emit :: "event \<Rightarrow> page \<Rightarrow> page" where
  "emit ev w = w\<lparr>trace := trace w @ [ev]\<rparr>"

definition fetch :: "env \<Rightarrow> string \<Rightarrow> (string \<times> string) list \<Rightarrow> page \<Rightarrow> reply \<times> page" where
  "fetch e url headers w =
     (net e (requests w) url, emit (Fetch url headers) (w\<lparr>requests := requests w + 1\<rparr>))"

text \<open>\<open>if (statusDiv) statusDiv.textContent = \<dots>\<close>\<close>

definition setStatus :: "status \<Rightarrow> page \<Rightarrow> page" where
  "setStatus t w =
     (case statusDiv w of
        None \<Rightarrow> w
      | Some old \<Rightarrow> emit (StatusText t) (w\<lparr>statusDiv := Some t\<rparr>))"

definition setResult :: "result \<Rightarrow> page \<Rightarrow> page" where
  "setResult t w =
     (case resultDiv w of
        None \<Rightarrow> w
      | Some old \<Rightarrow> emit (ResultText t) (w\<lparr>resultDiv := Some t\<rparr>))"

section \<open>Geocode resolver\<close>

definition pdokUrl :: "string \<Rightarrow> string" where
  "pdokUrl zipcode =
     ''https://api.pdok.nl/bzk/locatieserver/search/v3_1/free?q=postcode:'' @ zipcode
       @ ''&fq=type:postcode&rows=1''"

definition nominatimUrl :: "string \<Rightarrow> string" where
  "nominatimUrl zipcode =
     ''https://nominatim.openstreetmap.org/search?postalcode='' @ zipcode
       @ ''&country=Netherlands&polygon_geojson=1&format=json''"

text \<open>
  The first match of \<open>/POINT\(([^\)]+)\)/\<close> and its group: at the leftmost \<open>POINT(\<close> that is
  followed by a non-empty run of characters other than \<open>)\<close> and then by \<open>)\<close>.
\<close>

fun match_POINT :: "string \<Rightarrow> string option" where
  "match_POINT [] = None"
| "match_POINT (c # cs) =
     (let rest = drop 6 (c # cs);
          grp = takeWhile (\<lambda>x. x \<noteq> CHR '')'') rest;
          after = dropWhile (\<lambda>x. x \<noteq> CHR '')'') rest
      in if take 6 (c # cs) = ''POINT('' \<and> grp \<noteq> [] \<and> after \<noteq> [] then Some grp
         else match_POINT cs)"

text \<open>\<open>s.split(' ')\<close>\<close>

fun split_space :: "string \<Rightarrow> string list" where
  "split_space [] = [[]]"
| "split_space (c # cs) =
     (if c = CHR '' '' then [] # split_space cs
      else (case split_space cs of
              [] \<Rightarrow> [[c]]
            | t # ts \<Rightarrow> (c # t) # ts))"

text \<open>
  The centroid text: \<open>const [lon, lat] = match[1].split(' ').map(Number)\<close> under the test
  \<open>!isNaN(lat) && !isNaN(lon)\<close>. With a single token \<open>lat\<close> is \<open>undefined\<close>, which \<open>isNaN\<close>
  converts to \<open>NaN\<close>. The result is the centre \<open>(lat, lon)\<close> to approximate around.
\<close>

definition parseCentroid :: "string \<Rightarrow> (jsnum \<times> jsnum) option" where
  "parseCentroid s =
     (case match_POINT s of
        None \<Rightarrow> None
      | Some inner \<Rightarrow>
          (let nums = map js_Number (split_space inner);
               lon = nums ! 0;
               lat = (if 1 < length nums then nums ! 1 else NaN)
           in if \<not> js_isNaN lat \<and> \<not> js_isNaN lon then Some (lat, lon) else None))"

text \<open>
  What the primary service's document leads to: a raised \<open>TypeError\<close>, a centre to
  approximate around, or nothing (the fallback is next).
\<close>

definition pdokCentroid :: "json \<Rightarrow> exn + (jsnum \<times> jsnum) option" where
  "pdokCentroid data =
     (case js_get (Some data) (js_field ''response'') of
        Inl x \<Rightarrow> Inl x
      | Inr response \<Rightarrow>
          (let docs = js_get_opt response (js_field ''docs'')
           in case js_gt0 (js_get_opt docs js_length) of
                Inl x \<Rightarrow> Inl x
              | Inr False \<Rightarrow> Inr None
              | Inr True \<Rightarrow>
                  (case js_get docs (js_index 0) of
                     Inl x \<Rightarrow> Inl x
                   | Inr doc \<Rightarrow>
                       (case js_get doc (js_field ''centroide_ll'') of
                          Inl x \<Rightarrow> Inl x
                        | Inr centroide_ll \<Rightarrow>
                            if js_truthy centroide_ll then
                              (case centroide_ll of
                                 Some (JStr s) \<Rightarrow> Inr (parseCentroid s)
                               | _ \<Rightarrow> Inl TypeError)
                            else Inr None))))"

text \<open>
  The secondary service's document under \<open>data.length > 0 && data[0].geojson\<close>: a raised
  \<open>TypeError\<close>, the geometry to wrap, or nothing.
\<close>

definition nominatimGeojson :: "json \<Rightarrow> exn + json option" where
  "nominatimGeojson data =
     (case js_get (Some data) js_length of
        Inl x \<Rightarrow> Inl x
      | Inr len \<Rightarrow>
          (case js_gt0 len of
             Inl x \<Rightarrow> Inl x
           | Inr False \<Rightarrow> Inr None
           | Inr True \<Rightarrow>
               (case js_get (js_index 0 data) (js_field ''geojson'') of
                  Inl x \<Rightarrow> Inl x
                | Inr geojson \<Rightarrow> if js_truthy geojson then Inr geojson else Inr None)))"

definition fetchFromNominatim :: "env \<Rightarrow> string \<Rightarrow> page \<Rightarrow> feature option \<times> page" where
  "fetchFromNominatim e zipcode w =
     (let (r, w1) = fetch e (nominatimUrl zipcode) [(''User-Agent'', ''Kakona/1.0'')] w;
          failed = emit (ConsoleError (''Nominatim error for '' @ zipcode @ '':'')) w1
      in case r of
           Throws \<Rightarrow> (None, failed)
         | Body data \<Rightarrow>
             (case nominatimGeojson data of
                Inl x \<Rightarrow> (None, failed)
              | Inr None \<Rightarrow> (None, w1)
              | Inr (Some geojson) \<Rightarrow>
                  (Some \<lparr> ftype = ''Feature'', postcode = zipcode, geometry = geojson \<rparr>, w1)))"

definition fetchZipcodeGeometry :: "env \<Rightarrow> string \<Rightarrow> page \<Rightarrow> feature option \<times> page" where
  "fetchZipcodeGeometry e zipcode w =
     (let (r, w1) = fetch e (pdokUrl zipcode) [] w;
          failed = emit (ConsoleError (''Error fetching zipcode '' @ zipcode @ '':'')) w1
      in case r of
           Throws \<Rightarrow> (None, failed)
         | Body data \<Rightarrow>
             (case pdokCentroid data of
                Inl x \<Rightarrow> (None, failed)
              | Inr (Some (lat, lon)) \<Rightarrow>
                  (Some (createApproximatePolygon (math e) lat lon zipcode), w1)
              | Inr None \<Rightarrow> fetchFromNominatim e zipcode w1))"

section \<open>Batch plotter\<close>

text \<open>
  \<open>plotZipcode\<close>: nothing for a missing feature; otherwise \<open>L.geoJSON\<close> builds the layer,
  or raises, before anything is added to the group.
\<close>

definition plotZipcode :: "env \<Rightarrow> config \<Rightarrow> feature option \<Rightarrow> page \<Rightarrow> exn + page" where
  "plotZipcode e cfg geojson w =
     (case geojson of
        None \<Rightarrow> Inr w
      | Some f \<Rightarrow>
          if geoJSON_raises e f then Inl LeafletError
          else Inr (w\<lparr>layerGroup := layerGroup w @
                 [\<lparr> drawn = f,
                    style = \<lparr> sFillColor = fillColor (mapConfig cfg),
                              sFillOpacity = fillOpacity (mapConfig cfg),
                              sColor = strokeColor (mapConfig cfg),
                              sWeight = strokeWeight (mapConfig cfg) \<rparr>,
                    popup = (if postcode f \<noteq> [] then Some (''Postcode: '' @ postcode f)
                             else None) \<rparr>]\<rparr>))"

text \<open>
  The body of the loop for one code, on the two counters and the page. The pause is the
  last statement inside \<open>try\<close>; the \<open>catch\<close> counts a failure.
\<close>

definition plotOne :: "env \<Rightarrow> config \<Rightarrow> string \<Rightarrow> nat \<times> nat \<times> page \<Rightarrow> nat \<times> nat \<times> page" where
  "plotOne e cfg zipcode acc =
     (case acc of (successCount, failCount, w) \<Rightarrow>
        (let (geometry, w1) = fetchZipcodeGeometry e zipcode (setStatus (Loading zipcode) w)
         in case geometry of
              Some f \<Rightarrow>
                (case plotZipcode e cfg (Some f) w1 of
                   Inl x \<Rightarrow>
                     (successCount, failCount + 1,
                      emit (ConsoleError (''Error processing zipcode '' @ zipcode @ '':'')) w1)
                 | Inr w2 \<Rightarrow> (successCount + 1, failCount, emit (Delay 500) w2))
            | None \<Rightarrow>
                (successCount, failCount + 1,
                 emit (Delay 500)
                   (emit (ConsoleWarn (''Could not find geometry for zipcode: '' @ zipcode)) w1))))"

fun plotLoop :: "env \<Rightarrow> config \<Rightarrow> string list \<Rightarrow> nat \<times> nat \<times> page \<Rightarrow> nat \<times> nat \<times> page" where
  "plotLoop e cfg [] acc = acc"
| "plotLoop e cfg (zipcode # rest) acc = plotLoop e cfg rest (plotOne e cfg zipcode acc)"

text \<open>
  \<open>plotAllZipcodes\<close>. The closing \<open>fitBounds\<close> is outside every \<open>try\<close>: the first component
  is the exception that leaves the method, if any.
\<close>

definition plotAllZipcodes :: "env \<Rightarrow> config \<Rightarrow> page \<Rightarrow> exn option \<times> page" where
  "plotAllZipcodes e cfg w =
     (case plotLoop e cfg (zipcodes cfg) (0, 0, setStatus LoadingAll w) of
        (successCount, failCount, w1) \<Rightarrow>
          (let w2 = setStatus (Loaded successCount failCount) w1;
               layers = layerGroup w2
           in if 0 < length layers then
                (if fitBounds_raises e (LayerBounds layers) then Some LeafletError else None,
                 emit (FitBounds (LayerBounds layers) (50, 50)) w2)
              else (None, w2)))"

definition clearAll :: "page \<Rightarrow> page" where
  "clearAll w = w\<lparr>layerGroup := []\<rparr>"

text \<open>The handler of the reload button.\<close>

definition reload :: "env \<Rightarrow> config \<Rightarrow> page \<Rightarrow> exn option \<times> page" where
  "reload e cfg w = plotAllZipcodes e cfg (clearAll w)"

section \<open>Search controller\<close>

definition is_letter :: "char \<Rightarrow> bool" where
  "is_letter c = (c \<in> set ''ABCDEFGHIJKLMNOPQRSTUVWXYZabcdefghijklmnopqrstuvwxyz'')"

text \<open>\<open>input.replace(/[A-Za-z]/g, '')\<close>\<close>

definition trimZipcode :: "string \<Rightarrow> string" where
  "trimZipcode input = filter (\<lambda>c. \<not> is_letter c) input"

definition clearSearch :: "page \<Rightarrow> page" where
  "clearSearch w = setResult Blank (w\<lparr>searchLayerGroup := []\<rparr>)"

definition plotZipcodeWithStyle ::
  "env \<Rightarrow> string \<Rightarrow> string \<Rightarrow> bool \<Rightarrow> page \<Rightarrow> exn option \<times> page" where
  "plotZipcodeWithStyle e zipcode colour isPolluted w =
     (let (geometry, w1) = fetchZipcodeGeometry e zipcode w
      in case geometry of
           None \<Rightarrow> (None, w1)
         | Some f \<Rightarrow>
             if geoJSON_raises e f then (Some LeafletError, w1)
             else (None,
                   w1\<lparr>searchLayerGroup := searchLayerGroup w1 @
                     [\<lparr> drawn = f,
                        style = \<lparr> sFillColor = colour, sFillOpacity = 7 / 10,
                                  sColor = colour, sWeight = 3 \<rparr>,
                        popup = Some (''Postcode: '' @ zipcode @ ''<br/><strong>''
                                  @ (if isPolluted then ''POLLUTED WATER!'' else ''Safe to drink'')
                                  @ ''</strong>'') \<rparr>]\<rparr>))"

text \<open>
  The zoom to the searched code: \<open>geometry.geometry?.coordinates?.[0]\<close>, mapped by
  \<open>c => [c[1], c[0]]\<close>, which raises on a value without \<open>map\<close> and on a \<open>null\<close> element.
\<close>

definition zoomTo :: "env \<Rightarrow> feature option \<Rightarrow> page \<Rightarrow> exn option \<times> page" where
  "zoomTo e found w =
     (case found of
        None \<Rightarrow> (None, w)
      | Some f \<Rightarrow>
          (let coords = js_get_opt (js_get_opt (Some (geometry f)) (js_field ''coordinates''))
                          (js_index 0)
           in if js_truthy coords then
                (case coords of
                   Some (JArr cs) \<Rightarrow>
                     if JNull \<in> set cs then (Some TypeError, w)
                     else
                       (let bounds = map (\<lambda>c. (js_index 1 c, js_index 0 c)) cs
                        in if latLngBounds_raises e bounds then (Some LeafletError, w)
                           else (if fitBounds_raises e (CoordBounds bounds)
                                 then Some LeafletError else None,
                                 emit (FitBounds (CoordBounds bounds) (50, 50)) w))
                 | _ \<Rightarrow> (Some TypeError, w))
              else (None, w)))"

text \<open>The \<open>try\<close> block of the search, with the exception that leaves it, if any.\<close>

definition searchBody :: "env \<Rightarrow> config \<Rightarrow> string \<Rightarrow> page \<Rightarrow> exn option \<times> page" where
  "searchBody e cfg zipcode w =
     (let polluted = (zipcode \<in> set (zipcodes cfg));
          (raised, w1) =
             (if polluted then plotZipcodeWithStyle e zipcode ''#e74c3c'' True w
              else plotZipcodeWithStyle e zipcode ''#27ae60'' False w)
      in case raised of
           Some x \<Rightarrow> (Some x, w1)
         | None \<Rightarrow>
             (let (found, w2) =
                    fetchZipcodeGeometry e zipcode
                      (setResult (if polluted then Polluted else Safe) w1)
              in zoomTo e found w2))"

definition searchZipcode :: "env \<Rightarrow> config \<Rightarrow> string \<Rightarrow> page \<Rightarrow> page" where
  "searchZipcode e cfg input w =
     (case resultDiv w of
        None \<Rightarrow> w
      | Some old \<Rightarrow>
          (let w1 = clearSearch w;
               zipcode = trimZipcode (js_trim input)
           in if zipcode = [] \<or> length zipcode \<noteq> 4 then setResult InvalidInput w1
              else
                (case searchBody e cfg zipcode (setResult Checking w1) of
                   (None, w2) \<Rightarrow> w2
                 | (Some x, w2) \<Rightarrow>
                     setResult SearchError (emit (ConsoleError ''Search error:'') w2))))"

section \<open>Notions of the specification\<close>

text \<open>
  The data model's geometry in the specification's words, a polygon or multipolygon
  shape: an object of type \<open>Polygon\<close> or \<open>MultiPolygon\<close> whose coordinates are an array.
\<close>

definition polygonShape :: "json \<Rightarrow> bool" where
  "polygonShape g =
     (case g of
        JObj kvs \<Rightarrow>
          (map_of kvs ''type'' = Some (JStr ''Polygon'')
             \<or> map_of kvs ''type'' = Some (JStr ''MultiPolygon''))
          \<and> (case map_of kvs ''coordinates'' of Some (JArr cs) \<Rightarrow> True | _ \<Rightarrow> False)
      | _ \<Rightarrow> False)"


section \<open>Scenarios\<close>

text \<open>An engine whose cosine and sine are the doubles nearest to the true values.\<close>

definition nearest :: "real \<Rightarrow> real" where
  "nearest x = (case round64 x of Fin y \<Rightarrow> y | v \<Rightarrow> 0)"

definition libm :: engine where
  "libm = \<lparr> mcos = (\<lambda>x. nearest (cos x)), msin = (\<lambda>x. nearest (sin x)) \<rparr>"

text \<open>
  A page whose two text elements exist and whose layer groups are empty, and an
  environment in which every request fails and the map library accepts everything.
\<close>

definition page0 :: page where
  "page0 = \<lparr> statusDiv = Some LoadingAll, resultDiv = Some Blank, layerGroup = [],
             searchLayerGroup = [], requests = 0, trace = [] \<rparr>"

definition offline :: env where
  "offline = \<lparr> net = (\<lambda>n url. Throws), math = libm, geoJSON_raises = (\<lambda>f. False),
               latLngBounds_raises = (\<lambda>b. False), fitBounds_raises = (\<lambda>t. False) \<rparr>"

definition config0 :: "string list \<Rightarrow> config" where
  "config0 zs =
     \<lparr> zipcodes = zs,
       mapConfig = \<lparr> center = (523676 / 10000, 49041 / 10000), zoom = 8,
                     fillColor = ''#3388ff'', fillOpacity = 4 / 10,
                     strokeColor = ''#0066cc'', strokeWeight = 2 \<rparr> \<rparr>"

text \<open>A document of the primary service whose first record has the centroid text \<open>s\<close>.\<close>

definition pdokDoc :: "string \<Rightarrow> json" where
  "pdokDoc s = JObj [(''response'', JObj [(''docs'', JArr [JObj [(''centroide_ll'', JStr s)]])])]"

text \<open>A document of the primary service with no record.\<close>

definition pdokEmpty :: json where
  "pdokEmpty = JObj [(''response'', JObj [(''docs'', JArr [])])]"

text \<open>A document of the secondary service whose first result has the geometry \<open>g\<close>.\<close>

definition nominatimDoc :: "json \<Rightarrow> json" where
  "nominatimDoc g = JArr [JObj [(''geojson'', g)]]"

definition pointGeometry :: json where
  "pointGeometry =
     JObj [(''type'', JStr ''Point''), (''coordinates'', JArr [JNum (Fin 5), JNum (Fin 52)])]"

text \<open>The primary service is unreachable; the secondary one would answer with a geometry.\<close>

definition primaryDown :: env where
  "primaryDown =
     offline\<lparr>net := (\<lambda>n url. if url = nominatimUrl ''1951''
                              then Body (nominatimDoc pointGeometry) else Throws)\<rparr>"

text \<open>The primary service answers with the centroid text \<open>s\<close>; the secondary one is unreachable.\<close>

definition primaryCentroid :: "string \<Rightarrow> env" where
  "primaryCentroid s =
     offline\<lparr>net := (\<lambda>n url. if url = pdokUrl ''1951'' then Body (pdokDoc s) else Throws)\<rparr>"

text \<open>A page on which an earlier run has left one layer in the bulk group.\<close>

definition oldLayer :: layer where
  "oldLayer =
     \<lparr> drawn = \<lparr> ftype = ''Feature'', postcode = ''1945'', geometry = pointGeometry \<rparr>,
       style = \<lparr> sFillColor = ''#3388ff'', sFillOpacity = 4 / 10,
                 sColor = ''#0066cc'', sWeight = 2 \<rparr>,
       popup = Some ''Postcode: 1945'' \<rparr>"

definition pageOld :: page where
  "pageOld = page0\<lparr>layerGroup := [oldLayer]\<rparr>"

text \<open>
  The primary service knows no code; the secondary one answers for 1951 with a geometry
  of a type the map library does not know, which makes \<open>L.geoJSON\<close> raise, and has
  nothing for 2011.
\<close>

definition unknownGeometry :: json where
  "unknownGeometry = JObj [(''type'', JStr ''Circle'')]"

definition rejecting :: env where
  "rejecting =
     offline\<lparr>net := (\<lambda>n url.
                if url = nominatimUrl ''1951'' then Body (nominatimDoc unknownGeometry)
                else if url = nominatimUrl ''2011'' then Body (JArr [])
                else Body pdokEmpty),
             geoJSON_raises := (\<lambda>f. geometry f = unknownGeometry)\<rparr>"

text \<open>
  The primary service knows no code; the secondary one answers for 1951 with the
  geometry \<open>g\<close>.
\<close>

definition secondaryOnly :: "json \<Rightarrow> env" where
  "secondaryOnly g =
     offline\<lparr>net := (\<lambda>n url. if url = nominatimUrl ''1951'' then Body (nominatimDoc g)
                              else Body pdokEmpty)\<rparr>"

text \<open>The fit-bounds instructions among the events.\<close>

fun is_fit :: "event \<Rightarrow> bool" where
  "is_fit (FitBounds t p) = True"
| "is_fit ev = False"

section \<open>Properties of the arithmetic\<close>


lemma rne_ge: "of_int n \<le> z \<Longrightarrow> n \<le> rne z"
proof -
  assume "of_int n \<le> z"
  then have "n \<le> \<lfloor>z\<rfloor>" by (simp add: le_floor_iff)
  then show ?thesis
    unfolding rne_def Let_def by auto
qed

lemma quantum_pos: "0 < quantum x"
  by (simp add: quantum_def)

lemma floor_log_powr_le:
  assumes "x \<noteq> 0"
  shows "2 powr of_int \<lfloor>log 2 \<bar>x\<bar>\<rfloor> \<le> \<bar>x\<bar>"
proof -
  have "0 < \<bar>x\<bar>" using assms by simp
  then show ?thesis
    using floor_log_eq_powr_iff [of "\<bar>x\<bar>" 2 "\<lfloor>log 2 \<bar>x\<bar>\<rfloor>"] by simp
qed


lemma round64_not_NaN [simp]: "round64 x \<noteq> NaN"
  by (simp add: round64_def Let_def signed_inf_def)


text \<open>A number of at least \<open>2 ^ 1024\<close> overflows.\<close>

lemma round64_overflow:
  assumes "2 ^ 1024 \<le> x"
  shows "round64 x = PInf"
proof -
  have xp: "0 < x" using assms by (smt (verit) zero_less_power)
  define k where "k = \<lfloor>log 2 \<bar>x\<bar>\<rfloor>"
  have up: "x < 2 powr (of_int k + 1)"
    using floor_log_eq_powr_iff [of x 2 k] xp by (simp add: k_def)
  have k: "1024 \<le> k"
  proof (rule ccontr)
    assume "\<not> 1024 \<le> k"
    then have "of_int k + 1 \<le> (1024 :: real)" by simp
    then have "2 powr (of_int k + 1) \<le> 2 powr (1024 :: real)"
      by (intro powr_mono) simp_all
    with up assms show False by simp
  qed
  have kx: "2 powr of_int k \<le> x"
    using floor_log_powr_le [of x] xp by (simp add: k_def)
  have "max (k - 52) (- 1074) = k - 52"
    using k by (intro max_absorb1) simp
  then have qd: "quantum x = 2 powr of_int (k - 52)"
    using xp by (simp add: quantum_def k_def)
  define q where "q = quantum x"
  have qp: "0 < q" by (simp add: q_def quantum_pos)
  have "2 powr of_int k = 2 powr (of_int (k - 52) + 52)"
    by simp
  also have "\<dots> = q * 2 ^ 52"
    unfolding powr_add by (simp add: q_def qd)
  finally have kq: "2 powr of_int k = q * 2 ^ 52" .
  with kx have "2 ^ 52 \<le> x / q"
    using qp by (simp add: field_simps)
  then have "of_int (2 ^ 52) \<le> x / q" by simp
  then have "(2 :: int) ^ 52 \<le> rne (x / q)" by (rule rne_ge)
  then have "(2 :: real) ^ 52 \<le> of_int (rne (x / q))"
    by (metis of_int_le_iff of_int_numeral of_int_power)
  then have "2 ^ 52 * q \<le> of_int (rne (x / q)) * q"
    using qp by (intro mult_right_mono) simp_all
  with kq have "2 powr of_int k \<le> of_int (rne (x / q)) * q"
    by (simp add: mult.commute)
  moreover have "(2 :: real) powr 1024 \<le> 2 powr of_int k"
    using k by (intro powr_mono) simp_all
  ultimately have "2 ^ 1024 \<le> of_int (rne (x / q)) * q"
    by simp
  then have "2 ^ 1024 \<le> \<bar>of_int (rne (x / q)) * q\<bar>"
    by linarith
  with xp show ?thesis
    by (simp add: round64_def Let_def signed_inf_def q_def)
qed

lemma js_div_NaN [simp]: "js_div x NaN = NaN"
  by (cases x) simp_all


lemma js_mul_Fin_not_NaN: "js_mul (Fin a) (Fin b) \<noteq> NaN"
  by simp




section \<open>Properties of the geometry approximator\<close>

lemma pushVertices_map:
  "pushVertices m lat lon i cs = cs @ map (vertex m lat lon) [i..<points]"
proof (induction m lat lon i cs rule: pushVertices.induct)
  case (1 m lat lon i coordinates)
  show ?case
  proof (cases "i < points")
    case True
    then have "[i..<points] = i # [i + 1..<points]"
      by (simp add: upt_conv_Cons)
    with True "1" show ?thesis
      by (subst pushVertices.simps) simp
  next
    case False
    then show ?thesis
      by (subst pushVertices.simps) simp
  qed
qed

lemma polygonRing_unfold:
  "polygonRing m lat lon =
     map (\<lambda>i. (snd (vertex m lat lon i), fst (vertex m lat lon i))) [0..<points]
       @ [(snd (vertex m lat lon 0), fst (vertex m lat lon 0))]"
proof -
  have "map (vertex m lat lon) [0..<points] ! 0 = vertex m lat lon 0"
    by (subst nth_map) (simp_all add: points_def)
  then show ?thesis
    by (simp add: polygonRing_def pushVertices_map comp_def)
qed











text \<open>The number 5 is a double.\<close>

lemma rne_of_int: "rne (of_int n) = n"
  by (simp add: rne_def)

lemma round64_5: "round64 5 = Fin 5"
proof -
  have "\<lfloor>log 2 (5 :: real)\<rfloor> = 2"
    by (simp add: floor_log_eq_powr_iff)
  then have "quantum 5 = 2 powr (- 50)"
    by (simp add: quantum_def)
  then have q: "quantum 5 = 1 / 2 ^ 50"
    by (simp add: powr_minus_divide)
  have "(5 :: real) / quantum 5 = of_int (5 * 2 ^ 50)"
    unfolding q by simp
  then have r: "rne (5 / quantum 5) = 5 * 2 ^ 50"
    by (simp only: rne_of_int)
  have y: "of_int (rne (5 / quantum 5)) * quantum 5 = 5"
    unfolding r unfolding q by simp
  have "(2 :: real) ^ 3 \<le> 2 ^ 1024"
    by (rule power_increasing) simp_all
  moreover have "(2 :: real) ^ 3 = 8"
    by simp
  ultimately have "(8 :: real) \<le> 2 ^ 1024"
    by (simp only:)
  then have n: "\<not> (2 :: real) ^ 1024 \<le> \<bar>5\<bar>"
    by (simp del: power_numeral)
  show ?thesis
    unfolding round64_def Let_def y using n by (simp del: power_numeral)
qed












lemma round64_underflow:
  assumes "0 < x" and "x \<le> 2 powr (- 1075)"
  shows "round64 x = Fin 0"
proof -
  define k where "k = \<lfloor>log 2 \<bar>x\<bar>\<rfloor>"
  have kx: "2 powr of_int k \<le> x"
    using floor_log_powr_le [of x] assms(1) by (simp add: k_def)
  have k: "k \<le> - 1075"
  proof (rule ccontr)
    assume "\<not> k \<le> - 1075"
    then have "(- 1075 :: real) < of_int k" by simp
    then have "2 powr (- 1075 :: real) < 2 powr of_int k"
      by (intro powr_less_mono) simp_all
    with kx assms(2) show False by simp
  qed
  then have "max (k - 52) (- 1074) = - 1074"
    by (intro max_absorb2) simp
  then have q: "quantum x = 2 powr (- 1074)"
    using assms(1) by (simp add: quantum_def k_def)
  have "2 powr (- 1075 :: real) = 2 powr (- 1074 + - 1)"
    by simp
  also have "\<dots> = 2 powr (- 1074) * (1 / 2)"
    unfolding powr_add by (simp add: powr_minus)
  finally have h: "2 powr (- 1075 :: real) = 2 powr (- 1074) / 2" by simp
  have qp: "0 < quantum x" by (rule quantum_pos)
  have z: "0 < x / quantum x" "x / quantum x \<le> 1 / 2"
    using assms h qp by (simp_all add: q field_simps)
  from z(2) have "x / quantum x < 1"
    by linarith
  with z(1) have "\<lfloor>x / quantum x\<rfloor> = 0"
    by (simp add: floor_eq_iff)
  with z have "rne (x / quantum x) = 0"
    by (simp add: rne_def Let_def)
  with assms(1) show ?thesis
    by (simp add: round64_def Let_def)
qed

text \<open>\<open>Number\<close> overflows to an infinity and underflows to zero.\<close>

lemma Number_overflow: "js_Number ''1e400'' = PInf"
proof -
  have l: "number_literal ''1e400'' = Fin (10 ^ 400)"
    by (simp add: number_literal_def js_trim_def is_ws_def str_decimal_def unsigned_decimal_def
        is_digit_def dec_value_def digit_val_def scale10_def Let_def del: power_numeral)
  have "(2 :: real) ^ 1024 \<le> 2 ^ 1200"
    by (rule power_increasing) simp_all
  also have "\<dots> = (2 ^ 3) ^ 400"
    by (simp only: power_mult [symmetric]) simp
  also have "\<dots> \<le> 10 ^ 400"
    by (rule power_mono) simp_all
  finally have "(2 :: real) ^ 1024 \<le> 10 ^ 400" .
  then have "round64 (10 ^ 400) = PInf"
    by (rule round64_overflow)
  with l show ?thesis
    by (simp add: js_Number_def del: power_numeral)
qed

lemma Number_underflow: "js_Number ''1e-400'' = Fin 0"
proof -
  have l: "number_literal ''1e-400'' = Fin (1 / 10 ^ 400)"
    by (simp add: number_literal_def js_trim_def is_ws_def str_decimal_def unsigned_decimal_def
        is_digit_def dec_value_def digit_val_def scale10_def Let_def del: power_numeral)
  have "(2 :: real) ^ 1075 \<le> 2 ^ 1200"
    by (rule power_increasing) simp_all
  also have "\<dots> = (2 ^ 3) ^ 400"
    by (simp only: power_mult [symmetric]) simp
  also have "\<dots> \<le> 10 ^ 400"
    by (rule power_mono) simp_all
  finally have "(2 :: real) ^ 1075 \<le> 10 ^ 400" .
  then have "1 / (10 :: real) ^ 400 \<le> 1 / 2 ^ 1075"
    by (intro divide_left_mono) simp_all
  also have "\<dots> = 2 powr (- 1075)"
    by (simp add: powr_minus divide_inverse del: power_numeral)
  finally have "1 / (10 :: real) ^ 400 \<le> 2 powr (- 1075)" .
  moreover have "0 < 1 / (10 :: real) ^ 400"
    by simp
  ultimately have "round64 (1 / 10 ^ 400) = Fin 0"
    by (intro round64_underflow)
  with l show ?thesis
    by (simp add: js_Number_def del: power_numeral)
qed

section \<open>Properties of the geocode resolver\<close>

lemma split_space_nonempty: "split_space s \<noteq> []"
  by (induction s) (auto split: list.splits)

lemma match_POINT_nonempty: "match_POINT s = Some inner \<Longrightarrow> s \<noteq> []"
  by (cases s) auto

lemma js_Number_literal: "number_literal s = Fin x \<Longrightarrow> js_Number s = round64 x"
  by (simp add: js_Number_def)

lemma js_Number_Infinity: "js_Number ''Infinity'' = PInf"
proof -
  have "number_literal ''Infinity'' = PInf"
    by code_simp
  then show ?thesis
    by (simp add: js_Number_def)
qed

lemma parseCentroid_not_NaN:
  "parseCentroid s = Some (lat, lon) \<Longrightarrow> lat \<noteq> NaN \<and> lon \<noteq> NaN"
  by (auto simp: parseCentroid_def Let_def js_isNaN_def split: option.splits if_splits)

lemma pdokCentroid_not_NaN:
  "pdokCentroid data = Inr (Some (lat, lon)) \<Longrightarrow> lat \<noteq> NaN \<and> lon \<noteq> NaN"
  by (auto simp: pdokCentroid_def Let_def
      split: sum.splits bool.splits if_splits option.splits json.splits
      dest: parseCentroid_not_NaN)

lemma nominatimGeojson_Some:
  "nominatimGeojson data = Inr (Some g) \<Longrightarrow>
     js_get (js_index 0 data) (js_field ''geojson'') = Inr (Some g) \<and> js_truthy (Some g)"
  by (auto simp: nominatimGeojson_def split: sum.splits bool.splits if_splits)

lemma polygonRing_length: "length (polygonRing m lat lon) = 21"
  by (simp add: polygonRing_unfold points_def)

lemma polygonRing_closed: "last (polygonRing m lat lon) = hd (polygonRing m lat lon)"
  by (simp add: polygonRing_unfold points_def upt_conv_Cons)

lemma createApproximatePolygon_shape:
  "polygonShape (geometry (createApproximatePolygon m lat lon zipcode))"
  by (simp add: createApproximatePolygon_def polygonShape_def ringJson_def)

text \<open>
  Claim C2, as the program has it. For every code and every behaviour of the two
  services, the resolver returns nothing or a feature of type \<open>Feature\<close> whose \<open>postcode\<close>
  property is the code that was asked for. Its geometry is either the approximated
  polygon around the centre that the primary document gave, a polygon with one closed
  ring of 21 pairs, or the \<open>geojson\<close> value of the first result of the secondary service,
  passed on as it came: a value that counts as true, of whatever shape.
\<close>

theorem fetchZipcodeGeometry_feature:
  "fst (fetchZipcodeGeometry e zipcode w) = None
   \<or> (\<exists>data lat lon.
         net e (requests w) (pdokUrl zipcode) = Body data
       \<and> pdokCentroid data = Inr (Some (lat, lon))
       \<and> lat \<noteq> NaN \<and> lon \<noteq> NaN
       \<and> fst (fetchZipcodeGeometry e zipcode w) =
           Some \<lparr> ftype = ''Feature'', postcode = zipcode,
                  geometry =
                    JObj [(''type'', JStr ''Polygon''),
                          (''coordinates'',
                           JArr [JArr (map (\<lambda>p. JArr [JNum (fst p), JNum (snd p)])
                                         (polygonRing (math e) lat lon))])] \<rparr>
       \<and> length (polygonRing (math e) lat lon) = 21
       \<and> last (polygonRing (math e) lat lon) = hd (polygonRing (math e) lat lon)
       \<and> polygonShape (geometry (createApproximatePolygon (math e) lat lon zipcode)))
   \<or> (\<exists>data g.
         net e (requests w + 1) (nominatimUrl zipcode) = Body data
       \<and> js_get (js_index 0 data) (js_field ''geojson'') = Inr (Some g)
       \<and> js_truthy (Some g)
       \<and> fst (fetchZipcodeGeometry e zipcode w) =
           Some \<lparr> ftype = ''Feature'', postcode = zipcode, geometry = g \<rparr>)"
proof (cases "net e (requests w) (pdokUrl zipcode)")
  case Throws
  then show ?thesis
    by (simp add: fetchZipcodeGeometry_def fetch_def)
next
  case (Body data)
  show ?thesis
  proof (cases "pdokCentroid data")
    case (Inl x)
    with Body show ?thesis
      by (simp add: fetchZipcodeGeometry_def fetch_def)
  next
    case (Inr c)
    show ?thesis
    proof (cases c)
      case None
      let ?w1 = "emit (Fetch (pdokUrl zipcode) []) (w\<lparr>requests := requests w + 1\<rparr>)"
      have r: "fetchZipcodeGeometry e zipcode w = fetchFromNominatim e zipcode ?w1"
        using Body Inr None by (simp add: fetchZipcodeGeometry_def fetch_def)
      show ?thesis
      proof (cases "net e (requests w + 1) (nominatimUrl zipcode)")
        case Throws
        then show ?thesis
          unfolding r by (simp add: fetchFromNominatim_def fetch_def emit_def)
      next
        case nb: (Body ndata)
        show ?thesis
        proof (cases "nominatimGeojson ndata")
          case (Inl x)
          with nb show ?thesis
            unfolding r by (simp add: fetchFromNominatim_def fetch_def emit_def)
        next
          case ir: (Inr og)
          show ?thesis
          proof (cases og)
            case None
            with nb ir show ?thesis
              unfolding r by (simp add: fetchFromNominatim_def fetch_def emit_def)
          next
            case (Some g)
            with nb ir have
              "fst (fetchFromNominatim e zipcode ?w1) =
                 Some \<lparr> ftype = ''Feature'', postcode = zipcode, geometry = g \<rparr>"
              by (simp add: fetchFromNominatim_def fetch_def emit_def)
            moreover have "js_get (js_index 0 ndata) (js_field ''geojson'') = Inr (Some g)"
              "js_truthy (Some g)"
              using nominatimGeojson_Some [of ndata g] ir Some by simp_all
            ultimately show ?thesis
              unfolding r using nb by blast
          qed
        qed
      qed
    next
      case (Some ll)
      obtain lat lon where ll: "ll = (lat, lon)"
        by (cases ll) auto
      have n: "lat \<noteq> NaN" "lon \<noteq> NaN"
        using pdokCentroid_not_NaN [of data lat lon] Inr Some ll by simp_all
      have "fst (fetchZipcodeGeometry e zipcode w) =
          Some (createApproximatePolygon (math e) lat lon zipcode)"
        using Body Inr Some ll by (simp add: fetchZipcodeGeometry_def fetch_def)
      then have "fst (fetchZipcodeGeometry e zipcode w) =
           Some \<lparr> ftype = ''Feature'', postcode = zipcode,
                  geometry =
                    JObj [(''type'', JStr ''Polygon''),
                          (''coordinates'',
                           JArr [JArr (map (\<lambda>p. JArr [JNum (fst p), JNum (snd p)])
                                         (polygonRing (math e) lat lon))])] \<rparr>"
        by (simp add: createApproximatePolygon_def ringJson_def)
      then show ?thesis
        using Body Inr Some ll n polygonRing_length polygonRing_closed
          createApproximatePolygon_shape
        by blast
    qed
  qed
qed

lemma pdokCentroid_pdokDoc:
  "s \<noteq> [] \<Longrightarrow> pdokCentroid (pdokDoc s) = Inr (parseCentroid s)"
  by (simp add: pdokCentroid_def pdokDoc_def js_get_def js_get_opt_def js_gt0_def js_ToNumber_def)

lemma pdokCentroid_pdokEmpty: "pdokCentroid pdokEmpty = Inr None"
  by (simp add: pdokCentroid_def pdokEmpty_def js_get_def js_get_opt_def js_gt0_def
      js_ToNumber_def)

lemma nominatimGeojson_nominatimDoc:
  "js_truthy (Some g) \<Longrightarrow> nominatimGeojson (nominatimDoc g) = Inr (Some g)"
  by (simp add: nominatimGeojson_def nominatimDoc_def js_get_def js_gt0_def js_ToNumber_def)

lemma nominatimGeojson_empty: "nominatimGeojson (JArr []) = Inr None"
  by (simp add: nominatimGeojson_def js_get_def js_gt0_def js_ToNumber_def)

lemma urls_differ:
  "pdokUrl a \<noteq> nominatimUrl b"
  by (simp add: pdokUrl_def nominatimUrl_def)

lemma nominatimUrl_inj: "nominatimUrl a = nominatimUrl b \<longleftrightarrow> a = b"
  by (simp add: nominatimUrl_def)

text \<open>A document whose \<open>length\<close> has no usable conversion ends the primary step.\<close>

lemma pdokCentroid_toString:
  "pdokCentroid (JObj [(''response'',
       JObj [(''docs'', JObj [(''length'', JObj [(''toString'', JNum (Fin 1))])])])]) =
     Inl TypeError"
  by (simp add: pdokCentroid_def js_get_def js_get_opt_def js_gt0_def js_ToNumber_def)

text \<open>The secondary service alone answers, with the geometry \<open>g\<close>.\<close>

lemma secondaryOnly_resolves:
  assumes "js_truthy (Some g)"
  shows "fetchZipcodeGeometry (secondaryOnly g) ''1951'' w =
     (Some \<lparr> ftype = ''Feature'', postcode = ''1951'', geometry = g \<rparr>,
      w\<lparr>requests := requests w + 2,
        trace := trace w @ [Fetch (pdokUrl ''1951'') [],
                   Fetch (nominatimUrl ''1951'') [(''User-Agent'', ''Kakona/1.0'')]]\<rparr>)"
  by (simp add: fetchZipcodeGeometry_def fetchFromNominatim_def fetch_def emit_def
      secondaryOnly_def offline_def urls_differ pdokCentroid_pdokEmpty
      nominatimGeojson_nominatimDoc [OF assms])

theorem fetchZipcodeGeometry_feature_witness:
  "\<exists>data g.
      net (secondaryOnly pointGeometry) (requests page0 + 1) (nominatimUrl ''1951'') = Body data
    \<and> js_get (js_index 0 data) (js_field ''geojson'') = Inr (Some g)
    \<and> js_truthy (Some g)
    \<and> fst (fetchZipcodeGeometry (secondaryOnly pointGeometry) ''1951'' page0) =
        Some \<lparr> ftype = ''Feature'', postcode = ''1951'', geometry = g \<rparr>"
proof -
  have t: "js_truthy (Some pointGeometry)"
    by (simp add: pointGeometry_def)
  have r: "fst (fetchZipcodeGeometry (secondaryOnly pointGeometry) ''1951'' page0) =
      Some \<lparr> ftype = ''Feature'', postcode = ''1951'', geometry = pointGeometry \<rparr>"
    by (simp add: secondaryOnly_resolves [OF t])
  have p: "net (secondaryOnly pointGeometry) (requests page0) (pdokUrl ''1951'') = Body pdokEmpty"
    by (simp add: secondaryOnly_def offline_def urls_differ)
  have "pointGeometry \<noteq> JObj [(''type'', JStr ''Polygon''), (''coordinates'', c)]" for c
    by (simp add: pointGeometry_def)
  then show ?thesis
    using fetchZipcodeGeometry_feature [of "secondaryOnly pointGeometry" "''1951''" page0] r p
    by (auto simp: pdokCentroid_pdokEmpty)
qed

text \<open>
  Claim C2 as stated fails: when the first result of the secondary service carries the
  text \<open>x\<close> as its \<open>geojson\<close>, the resolver returns a feature whose geometry is that text,
  which is no polygon and no geometry at all.
\<close>

theorem malformed_feature_returned:
  "\<not> polygonShape (JStr ''x'')
   \<and> fetchZipcodeGeometry (secondaryOnly (JStr ''x'')) ''1951'' page0 =
       (Some \<lparr> ftype = ''Feature'', postcode = ''1951'', geometry = JStr ''x'' \<rparr>,
        page0\<lparr>requests := 2,
          trace := [Fetch (pdokUrl ''1951'') [],
                    Fetch (nominatimUrl ''1951'') [(''User-Agent'', ''Kakona/1.0'')]]\<rparr>)"
proof -
  have t: "js_truthy (Some (JStr ''x''))"
    by simp
  show ?thesis
    by (simp add: secondaryOnly_resolves [OF t] polygonShape_def page0_def)
qed

lemma primary_failure_absent:
  assumes "net e (requests w) (pdokUrl zipcode) = Throws
      \<or> (\<exists>data x. net e (requests w) (pdokUrl zipcode) = Body data \<and> pdokCentroid data = Inl x)"
  shows "fetchZipcodeGeometry e zipcode w =
         (None,
          emit (ConsoleError (''Error fetching zipcode '' @ zipcode @ '':''))
            (emit (Fetch (pdokUrl zipcode) []) (w\<lparr>requests := requests w + 1\<rparr>)))"
  using assms by (auto simp: fetchZipcodeGeometry_def fetch_def)

lemma primaryDown_fallback:
  "fst (fetchFromNominatim primaryDown ''1951'' page0) =
     Some \<lparr> ftype = ''Feature'', postcode = ''1951'', geometry = pointGeometry \<rparr>"
proof -
  have t: "js_truthy (Some pointGeometry)"
    by (simp add: pointGeometry_def)
  show ?thesis
    by (simp add: fetchFromNominatim_def fetch_def primaryDown_def offline_def
        nominatimGeojson_nominatimDoc [OF t])
qed

text \<open>
  Claim C1, at an unreachable primary service. The request to the primary service for
  1951 raises, and the secondary service, asked on its own, delivers a geometry for 1951.
  The resolver logs the error and returns nothing after that one request: the handler
  around both steps ends the resolution, and the secondary service is never asked.
\<close>

theorem primary_error_skips_fallback:
  "net primaryDown (requests page0) (pdokUrl ''1951'') = Throws
   \<and> fst (fetchFromNominatim primaryDown ''1951'' page0) =
       Some \<lparr> ftype = ''Feature'', postcode = ''1951'', geometry = pointGeometry \<rparr>
   \<and> fetchZipcodeGeometry primaryDown ''1951'' page0 =
       (None, page0\<lparr>requests := 1,
                trace := [Fetch (pdokUrl ''1951'') [],
                          ConsoleError ''Error fetching zipcode 1951:'']\<rparr>)"
proof -
  have n: "net primaryDown (requests page0) (pdokUrl ''1951'') = Throws"
    using urls_differ [of "''1951''" "''1951''"] by (simp add: primaryDown_def offline_def)
  have f: "fetchZipcodeGeometry primaryDown ''1951'' page0 =
       (None, page0\<lparr>requests := 1,
                trace := [Fetch (pdokUrl ''1951'') [],
                          ConsoleError ''Error fetching zipcode 1951:'']\<rparr>)"
    using n by (simp add: fetchZipcodeGeometry_def fetch_def emit_def page0_def)
  show ?thesis
    using n f primaryDown_fallback by simp
qed

lemma match_POINT_examples:
  "match_POINT ''POINT(4.9 52.3)'' = Some ''4.9 52.3''"
  "match_POINT ''POINT(Infinity 52.3)'' = Some ''Infinity 52.3''"
  "match_POINT ''POINT(5 Infinity)'' = Some ''5 Infinity''"
  by code_simp+

lemma split_space_examples:
  "split_space ''4.9 52.3'' = [''4.9'', ''52.3'']"
  "split_space ''Infinity 52.3'' = [''Infinity'', ''52.3'']"
  "split_space ''5 Infinity'' = [''5'', ''Infinity'']"
  by code_simp+

lemma js_Number_examples:
  "js_Number ''4.9'' = round64 (49 / 10)"
  "js_Number ''52.3'' = round64 (523 / 10)"
  "js_Number ''5'' = Fin 5"
proof -
  have "number_literal ''4.9'' = Fin (49 / 10)" "number_literal ''52.3'' = Fin (523 / 10)"
    "number_literal ''5'' = Fin 5"
    by code_simp+
  then show "js_Number ''4.9'' = round64 (49 / 10)" "js_Number ''52.3'' = round64 (523 / 10)"
    "js_Number ''5'' = Fin 5"
    by (simp_all add: js_Number_def round64_5)
qed

lemma parseCentroid_examples:
  "parseCentroid ''POINT(4.9 52.3)'' = Some (round64 (523 / 10), round64 (49 / 10))"
  "parseCentroid ''POINT(Infinity 52.3)'' = Some (round64 (523 / 10), PInf)"
  "parseCentroid ''POINT(5 Infinity)'' = Some (PInf, Fin 5)"
  by (simp_all add: parseCentroid_def match_POINT_examples split_space_examples
      js_Number_examples js_Number_Infinity js_isNaN_def)

lemma primaryCentroid_resolves:
  assumes "parseCentroid s = Some (lat, lon)"
  shows "fetchZipcodeGeometry (primaryCentroid s) ''1951'' w =
     (Some (createApproximatePolygon libm lat lon ''1951''),
      emit (Fetch (pdokUrl ''1951'') []) (w\<lparr>requests := requests w + 1\<rparr>))"
proof -
  have "s \<noteq> []"
    using assms by (auto simp: parseCentroid_def dest: match_POINT_nonempty split: option.splits)
  then have "pdokCentroid (pdokDoc s) = Inr (Some (lat, lon))"
    by (simp add: pdokCentroid_pdokDoc assms)
  then show ?thesis
    by (simp add: fetchZipcodeGeometry_def fetch_def primaryCentroid_def offline_def)
qed

text \<open>
  Claim C3 as stated fails: the longitude \<open>Infinity\<close> is not a finite number, and the
  resolver still delegates to the approximator, without a fallback request.
\<close>

theorem infinite_centroid_delegates:
  "js_Number ''Infinity'' = PInf
   \<and> \<not> is_finite (js_Number ''Infinity'')
   \<and> fetchZipcodeGeometry (primaryCentroid ''POINT(Infinity 52.3)'') ''1951'' page0 =
       (Some (createApproximatePolygon libm (round64 (523 / 10)) PInf ''1951''),
        page0\<lparr>requests := 1, trace := [Fetch (pdokUrl ''1951'') []]\<rparr>)"
  by (simp add: js_Number_Infinity primaryCentroid_resolves [OF parseCentroid_examples(2)]
      emit_def page0_def)

text \<open>
  Claim C3, as the program has it. For a primary document whose first record carries a
  centroid text in which \<open>POINT(\<dots>)\<close> is found, the text between the parentheses is split at
  single spaces and the first two pieces are converted by \<open>Number\<close>. The resolver hands the
  centre to the geometry approximator exactly when neither converted value is \<open>NaN\<close>,
  which an infinite value also satisfies, and goes on to the fallback otherwise.
\<close>

theorem centroid_delegation:
  assumes "net e (requests w) (pdokUrl zipcode) = Body (JObj kvs)"
    and "map_of kvs ''response'' = Some (JObj rs)"
    and "map_of rs ''docs'' = Some (JArr (JObj ds # others))"
    and "map_of ds ''centroide_ll'' = Some (JStr s)"
    and "match_POINT s = Some inner"
  shows "fetchZipcodeGeometry e zipcode w =
     (let toks = split_space inner;
          lon = js_Number (hd toks);
          lat = (if 1 < length toks then js_Number (toks ! 1) else NaN);
          w1 = emit (Fetch (pdokUrl zipcode) []) (w\<lparr>requests := requests w + 1\<rparr>)
      in if lat \<noteq> NaN \<and> lon \<noteq> NaN
         then (Some (createApproximatePolygon (math e) lat lon zipcode), w1)
         else fetchFromNominatim e zipcode w1)"
proof -
  from assms(5) have ne: "s \<noteq> []"
    by (rule match_POINT_nonempty)
  have t: "split_space inner \<noteq> []"
    by (rule split_space_nonempty)
  then have h: "map js_Number (split_space inner) ! 0 = js_Number (hd (split_space inner))"
    by (cases "split_space inner") simp_all
  have n1: "1 < length (split_space inner) \<Longrightarrow>
      map js_Number (split_space inner) ! 1 = js_Number (split_space inner ! 1)"
    by simp
  have "pdokCentroid (JObj kvs) = Inr (parseCentroid s)"
    using assms(2-4) ne
    by (simp add: pdokCentroid_def js_get_def js_get_opt_def js_gt0_def js_ToNumber_def)
  then show ?thesis
    using assms(1,5) h n1
    by (simp add: fetchZipcodeGeometry_def fetch_def parseCentroid_def js_isNaN_def Let_def)
qed

theorem centroid_delegation_witness:
  "fetchZipcodeGeometry (primaryCentroid ''POINT(4.9 52.3)'') ''1951'' page0 =
     (Some (createApproximatePolygon libm (round64 (523 / 10)) (round64 (49 / 10)) ''1951''),
      emit (Fetch (pdokUrl ''1951'') []) (page0\<lparr>requests := requests page0 + 1\<rparr>))"
proof -
  have n: "net (primaryCentroid ''POINT(4.9 52.3)'') (requests page0) (pdokUrl ''1951'') =
      Body (JObj [(''response'',
              JObj [(''docs'', JArr [JObj [(''centroide_ll'', JStr ''POINT(4.9 52.3)'')]])])])"
    by (simp add: primaryCentroid_def offline_def pdokDoc_def)
  have r: "map_of [(''response'',
              JObj [(''docs'', JArr [JObj [(''centroide_ll'', JStr ''POINT(4.9 52.3)'')]])])]
            ''response'' =
      Some (JObj [(''docs'', JArr [JObj [(''centroide_ll'', JStr ''POINT(4.9 52.3)'')]])])"
    by simp
  have d: "map_of [(''docs'', JArr [JObj [(''centroide_ll'', JStr ''POINT(4.9 52.3)'')]])] ''docs'' =
      Some (JArr (JObj [(''centroide_ll'', JStr ''POINT(4.9 52.3)'')] # []))"
    by simp
  have c: "map_of [(''centroide_ll'', JStr ''POINT(4.9 52.3)'')] ''centroide_ll'' =
      Some (JStr ''POINT(4.9 52.3)'')"
    by simp
  have m: "math (primaryCentroid ''POINT(4.9 52.3)'') = libm"
    by (simp add: primaryCentroid_def offline_def)
  show ?thesis
    using centroid_delegation [OF n r d c match_POINT_examples(1)]
    by (simp add: split_space_examples js_Number_examples m)
qed


section \<open>Effects on the page\<close>

lemma emit_fields [simp]:
  "trace (emit ev w) = trace w @ [ev]"
  "layerGroup (emit ev w) = layerGroup w"
  "searchLayerGroup (emit ev w) = searchLayerGroup w"
  "statusDiv (emit ev w) = statusDiv w"
  "resultDiv (emit ev w) = resultDiv w"
  "requests (emit ev w) = requests w"
  by (simp_all add: emit_def)

lemma setStatus_fields [simp]:
  "trace (setStatus t w) = trace w @ (if statusDiv w = None then [] else [StatusText t])"
  "layerGroup (setStatus t w) = layerGroup w"
  "searchLayerGroup (setStatus t w) = searchLayerGroup w"
  "statusDiv (setStatus t w) = (if statusDiv w = None then None else Some t)"
  "resultDiv (setStatus t w) = resultDiv w"
  "requests (setStatus t w) = requests w"
  by (simp_all add: setStatus_def split: option.splits)

lemma setResult_fields [simp]:
  "trace (setResult t w) = trace w @ (if resultDiv w = None then [] else [ResultText t])"
  "layerGroup (setResult t w) = layerGroup w"
  "searchLayerGroup (setResult t w) = searchLayerGroup w"
  "statusDiv (setResult t w) = statusDiv w"
  "resultDiv (setResult t w) = (if resultDiv w = None then None else Some t)"
  "requests (setResult t w) = requests w"
  by (simp_all add: setResult_def split: option.splits)

lemma fetch_fields [simp]:
  "fst (fetch e url hs w) = net e (requests w) url"
  "trace (snd (fetch e url hs w)) = trace w @ [Fetch url hs]"
  "layerGroup (snd (fetch e url hs w)) = layerGroup w"
  "searchLayerGroup (snd (fetch e url hs w)) = searchLayerGroup w"
  "statusDiv (snd (fetch e url hs w)) = statusDiv w"
  "resultDiv (snd (fetch e url hs w)) = resultDiv w"
  "requests (snd (fetch e url hs w)) = requests w + 1"
  by (simp_all add: fetch_def)

lemma fetchFromNominatim_fields [simp]:
  "layerGroup (snd (fetchFromNominatim e z w)) = layerGroup w"
  "searchLayerGroup (snd (fetchFromNominatim e z w)) = searchLayerGroup w"
  "statusDiv (snd (fetchFromNominatim e z w)) = statusDiv w"
  "resultDiv (snd (fetchFromNominatim e z w)) = resultDiv w"
  by (simp_all add: fetchFromNominatim_def fetch_def Let_def
      split: reply.splits sum.splits option.splits)

lemma fetchFromNominatim_trace:
  "\<exists>t. trace (snd (fetchFromNominatim e z w)) = trace w @ t \<and> filter is_fit t = []"
  by (simp add: fetchFromNominatim_def fetch_def Let_def
      split: reply.splits sum.splits option.splits)

lemma fetchZipcodeGeometry_fields [simp]:
  "layerGroup (snd (fetchZipcodeGeometry e z w)) = layerGroup w"
  "searchLayerGroup (snd (fetchZipcodeGeometry e z w)) = searchLayerGroup w"
  "statusDiv (snd (fetchZipcodeGeometry e z w)) = statusDiv w"
  "resultDiv (snd (fetchZipcodeGeometry e z w)) = resultDiv w"
  by (simp_all add: fetchZipcodeGeometry_def fetch_def Let_def
      split: reply.splits sum.splits option.splits prod.splits)

lemma fetchZipcodeGeometry_trace:
  "\<exists>t. trace (snd (fetchZipcodeGeometry e z w)) = trace w @ Fetch (pdokUrl z) [] # t
       \<and> filter is_fit t = []"
proof -
  let ?w1 = "emit (Fetch (pdokUrl z) []) (w\<lparr>requests := requests w + 1\<rparr>)"
  obtain t where "trace (snd (fetchFromNominatim e z ?w1)) = trace ?w1 @ t" "filter is_fit t = []"
    using fetchFromNominatim_trace by blast
  then show ?thesis
    by (auto simp: fetchZipcodeGeometry_def fetch_def Let_def
        split: reply.splits sum.splits option.splits prod.splits)
qed

section \<open>Properties of the batch plotter\<close>

lemma plotZipcode_Inr:
  "plotZipcode e cfg (Some f) w = Inr w' \<Longrightarrow>
     \<exists>l. layerGroup w' = layerGroup w @ [l] \<and> trace w' = trace w \<and> statusDiv w' = statusDiv w"
  by (auto simp: plotZipcode_def split: if_splits)

lemma plotOne_frame:
  assumes "plotOne e cfg z (s, f, w) = (s', f', w')"
  shows "\<exists>t new. trace w' = trace w @ t \<and> filter is_fit t = []
           \<and> layerGroup w' = layerGroup w @ new
           \<and> s' = s + length new \<and> s' + f' = s + f + 1
           \<and> statusDiv w' = (if statusDiv w = None then None else Some (Loading z))"
proof -
  let ?w0 = "setStatus (Loading z) w"
  obtain g w1 where r: "fetchZipcodeGeometry e z ?w0 = (g, w1)"
    by (cases "fetchZipcodeGeometry e z ?w0") auto
  obtain t where t: "trace w1 = trace ?w0 @ Fetch (pdokUrl z) [] # t" "filter is_fit t = []"
    using fetchZipcodeGeometry_trace [of e z ?w0] r by auto
  have l: "layerGroup w1 = layerGroup w"
    and st: "statusDiv w1 = (if statusDiv w = None then None else Some (Loading z))"
    using fetchZipcodeGeometry_fields [of e z ?w0] r by auto
  show ?thesis
  proof (cases g)
    case None
    with assms r have "s' = s" "f' = f + 1"
      "w' = emit (Delay 500)
              (emit (ConsoleWarn (''Could not find geometry for zipcode: '' @ z)) w1)"
      by (auto simp: plotOne_def)
    with t l st show ?thesis by auto
  next
    case (Some ft)
    show ?thesis
    proof (cases "plotZipcode e cfg (Some ft) w1")
      case (Inl x)
      with assms r Some have "s' = s" "f' = f + 1"
        "w' = emit (ConsoleError (''Error processing zipcode '' @ z @ '':'')) w1"
        by (auto simp: plotOne_def)
      with t l st show ?thesis by auto
    next
      case (Inr w2)
      with assms r Some have e: "s' = s + 1" "f' = f" "w' = emit (Delay 500) w2"
        by (auto simp: plotOne_def)
      from Inr obtain ly where "layerGroup w2 = layerGroup w1 @ [ly]" "trace w2 = trace w1"
        "statusDiv w2 = statusDiv w1"
        using plotZipcode_Inr by blast
      with e t l st show ?thesis by auto
    qed
  qed
qed

lemma plotOne_status:
  "(statusDiv (snd (snd (plotOne e cfg z acc))) = None) = (statusDiv (snd (snd acc)) = None)"
proof -
  obtain s f w where acc: "acc = (s, f, w)"
    by (cases acc) auto
  obtain s' f' w' where r: "plotOne e cfg z (s, f, w) = (s', f', w')"
    by (cases "plotOne e cfg z (s, f, w)") auto
  from plotOne_frame [OF r] have "statusDiv w' = (if statusDiv w = None then None else Some (Loading z))"
    by auto
  with acc r show ?thesis by simp
qed

lemma plotLoop_status:
  "(statusDiv (snd (snd (plotLoop e cfg zs acc))) = None) = (statusDiv (snd (snd acc)) = None)"
  by (induction zs arbitrary: acc) (simp_all add: plotOne_status)

lemma plotLoop_frame:
  "plotLoop e cfg zs (s, f, w) = (s', f', w') \<Longrightarrow>
     \<exists>t new. trace w' = trace w @ t \<and> filter is_fit t = []
       \<and> layerGroup w' = layerGroup w @ new
       \<and> s' = s + length new \<and> s' + f' = s + f + length zs"
proof (induction zs arbitrary: s f w)
  case Nil
  then show ?case by simp
next
  case (Cons z zs)
  obtain s1 f1 w1 where one: "plotOne e cfg z (s, f, w) = (s1, f1, w1)"
    by (cases "plotOne e cfg z (s, f, w)") auto
  with Cons.prems have "plotLoop e cfg zs (s1, f1, w1) = (s', f', w')"
    by simp
  from Cons.IH [OF this] obtain t2 new2 where
    b: "trace w' = trace w1 @ t2" "filter is_fit t2 = []" "layerGroup w' = layerGroup w1 @ new2"
      "s' = s1 + length new2" "s' + f' = s1 + f1 + length zs"
    by blast
  from plotOne_frame [OF one] obtain t1 new1 where
    a: "trace w1 = trace w @ t1" "filter is_fit t1 = []" "layerGroup w1 = layerGroup w @ new1"
      "s1 = s + length new1" "s1 + f1 = s + f + 1"
    by blast
  show ?case
  proof (intro exI conjI)
    show "trace w' = trace w @ (t1 @ t2)" using a b by simp
    show "filter is_fit (t1 @ t2) = []" using a b by simp
    show "layerGroup w' = layerGroup w @ (new1 @ new2)" using a b by simp
    show "s' = s + length (new1 @ new2)" using a b by simp
    show "s' + f' = s + f + length (z # zs)" using a b by simp
  qed
qed

text \<open>
  Claim C4, as the program has it. After a run the bulk group holds what it held before
  followed by the layers plotted in the run, as many as the status line counts as loaded.
  The run issues a fit-bounds instruction exactly when this group is not empty, a single
  one, at the end, for the bounds of all layers of the group and with the padding
  \<open>(50, 50)\<close>. So with nothing plotted the viewport is left alone only if the group was empty
  before the run, and with a group empty before the run the fit is to the plotted
  features.
\<close>

theorem fit_after_batch:
  "\<exists>new failed t.
      layerGroup (snd (plotAllZipcodes e cfg w)) = layerGroup w @ new
    \<and> length new + failed = length (zipcodes cfg)
    \<and> (statusDiv w \<noteq> None \<longrightarrow>
         statusDiv (snd (plotAllZipcodes e cfg w)) = Some (Loaded (length new) failed))
    \<and> trace (snd (plotAllZipcodes e cfg w)) = trace w @ t
    \<and> filter is_fit t =
        (if layerGroup w @ new = [] then []
         else [FitBounds (LayerBounds (layerGroup w @ new)) (50, 50)])"
proof -
  let ?w0 = "setStatus LoadingAll w"
  obtain s f w1 where lp: "plotLoop e cfg (zipcodes cfg) (0, 0, ?w0) = (s, f, w1)"
    by (cases "plotLoop e cfg (zipcodes cfg) (0, 0, ?w0)") auto
  from plotLoop_frame [OF lp] obtain t new where
    a: "trace w1 = trace ?w0 @ t" "filter is_fit t = []" "layerGroup w1 = layerGroup ?w0 @ new"
      "s = 0 + length new" "s + f = 0 + 0 + length (zipcodes cfg)"
    by blast
  have sl: "s = length new" and sf: "length new + f = length (zipcodes cfg)"
    using a(4,5) by simp_all
  have st1: "(statusDiv w1 = None) = (statusDiv w = None)"
    using plotLoop_status [of e cfg "zipcodes cfg" "(0, 0, ?w0)"] lp by simp
  define w2 where "w2 = setStatus (Loaded (length new) f) w1"
  let ?fit = "FitBounds (LayerBounds (layerGroup w @ new)) (50, 50)"
  let ?t0 = "(if statusDiv w = None then [] else [StatusText LoadingAll]) @ t
               @ (if statusDiv w = None then [] else [StatusText (Loaded (length new) f)])"
  let ?t1 = "?t0 @ (if layerGroup w @ new = [] then [] else [?fit])"
  define r where "r = snd (plotAllZipcodes e cfg w)"
  have lg: "layerGroup w2 = layerGroup w @ new"
    unfolding w2_def using a(3) by simp
  have r: "r = (if layerGroup w @ new = [] then w2 else emit ?fit w2)"
    using lp lg unfolding r_def sl w2_def by (simp add: plotAllZipcodes_def Let_def)
  have c1: "layerGroup r = layerGroup w @ new"
    unfolding r using lg by simp
  have st2: "statusDiv w \<noteq> None \<longrightarrow> statusDiv w2 = Some (Loaded (length new) f)"
    unfolding w2_def using st1 by simp
  have c3: "statusDiv w \<noteq> None \<longrightarrow> statusDiv r = Some (Loaded (length new) f)"
    unfolding r using st2 by simp
  have tr: "trace w2 = trace w @ ?t0"
    unfolding w2_def using a(1) st1 by simp
  have c4: "trace r = trace w @ ?t1"
    unfolding r using tr by simp
  have c5: "filter is_fit ?t1 = (if layerGroup w @ new = [] then [] else [?fit])"
    using a(2) by simp
  show ?thesis
    unfolding r_def [symmetric] using c1 sf c3 c4 c5 by blast
qed

theorem fit_after_batch_witness:
  "statusDiv page0 \<noteq> None
   \<and> (\<exists>new failed t.
        layerGroup (snd (plotAllZipcodes offline (config0 [''9999'']) page0)) = new
      \<and> length new + failed = 1
      \<and> statusDiv (snd (plotAllZipcodes offline (config0 [''9999'']) page0)) =
          Some (Loaded (length new) failed)
      \<and> trace (snd (plotAllZipcodes offline (config0 [''9999'']) page0)) = t
      \<and> filter is_fit t = (if new = [] then [] else [FitBounds (LayerBounds new) (50, 50)]))"
proof -
  let ?r = "snd (plotAllZipcodes offline (config0 [''9999'']) page0)"
  from fit_after_batch [of offline "config0 [''9999'']" page0] obtain new failed t where
    a: "layerGroup ?r = layerGroup page0 @ new"
      "length new + failed = length (zipcodes (config0 [''9999'']))"
      "statusDiv page0 \<noteq> None \<longrightarrow> statusDiv ?r = Some (Loaded (length new) failed)"
      "trace ?r = trace page0 @ t"
      "filter is_fit t =
         (if layerGroup page0 @ new = [] then []
          else [FitBounds (LayerBounds (layerGroup page0 @ new)) (50, 50)])"
    by blast
  have p: "statusDiv page0 \<noteq> None" "layerGroup page0 = []" "trace page0 = []"
    by (simp_all add: page0_def)
  have z: "length (zipcodes (config0 [''9999''])) = 1"
    by (simp add: config0_def)
  show ?thesis
    using a p z by (intro conjI exI [of _ new] exI [of _ failed] exI [of _ t]) simp_all
qed

text \<open>
  Claim C4 as stated fails: on a page whose bulk group still holds a layer, a run that
  plots nothing (its one code fails) ends with a fit-bounds instruction for that layer.
\<close>

theorem stale_layers_refit:
  "layerGroup pageOld = [oldLayer]
   \<and> plotAllZipcodes offline (config0 [''9999'']) pageOld =
       (None,
        pageOld\<lparr>statusDiv := Some (Loaded 0 1), requests := 1,
          trace := [StatusText LoadingAll, StatusText (Loading ''9999''),
                    Fetch (pdokUrl ''9999'') [],
                    ConsoleError ''Error fetching zipcode 9999:'',
                    ConsoleWarn ''Could not find geometry for zipcode: 9999'',
                    Delay 500, StatusText (Loaded 0 1),
                    FitBounds (LayerBounds [oldLayer]) (50, 50)]\<rparr>)"
  by (simp add: plotAllZipcodes_def plotOne_def fetchZipcodeGeometry_def fetch_def emit_def
      setStatus_def offline_def config0_def pageOld_def page0_def Let_def)

lemma plotOne_pause:
  assumes "\<And>ft. \<not> geoJSON_raises e ft"
  shows "\<exists>t. trace (snd (snd (plotOne e cfg z (s, f, w)))) = trace w @ t @ [Delay 500]"
proof -
  let ?w0 = "setStatus (Loading z) w"
  obtain g w1 where r: "fetchZipcodeGeometry e z ?w0 = (g, w1)"
    by (cases "fetchZipcodeGeometry e z ?w0") auto
  obtain t where t: "trace w1 = trace ?w0 @ Fetch (pdokUrl z) [] # t"
    using fetchZipcodeGeometry_trace [of e z ?w0] r by auto
  show ?thesis
    using r t assms by (cases g) (auto simp: plotOne_def plotZipcode_def)
qed

lemma rejecting_1951:
  "fetchZipcodeGeometry rejecting ''1951'' w =
     (Some \<lparr> ftype = ''Feature'', postcode = ''1951'', geometry = unknownGeometry \<rparr>,
      w\<lparr>requests := requests w + 2,
        trace := trace w @ [Fetch (pdokUrl ''1951'') [],
                   Fetch (nominatimUrl ''1951'') [(''User-Agent'', ''Kakona/1.0'')]]\<rparr>)"
proof -
  have t: "js_truthy (Some unknownGeometry)"
    by (simp add: unknownGeometry_def)
  show ?thesis
    by (simp add: fetchZipcodeGeometry_def fetchFromNominatim_def fetch_def emit_def
        rejecting_def offline_def urls_differ pdokCentroid_pdokEmpty
        nominatimGeojson_nominatimDoc [OF t])
qed

lemma rejecting_2011:
  "fetchZipcodeGeometry rejecting ''2011'' w =
     (None,
      w\<lparr>requests := requests w + 2,
        trace := trace w @ [Fetch (pdokUrl ''2011'') [],
                   Fetch (nominatimUrl ''2011'') [(''User-Agent'', ''Kakona/1.0'')]]\<rparr>)"
  by (simp add: fetchZipcodeGeometry_def fetchFromNominatim_def fetch_def emit_def
      rejecting_def offline_def urls_differ pdokCentroid_pdokEmpty
      nominatimGeojson_empty nominatimUrl_inj)

text \<open>
  Claim C6 at a run the program gets wrong. The pause is the last statement inside the
  \<open>try\<close> of the loop body, so a code whose rendering raises is counted as failed and the
  next code is requested at once: between the last request for 1951 and the first request
  for 2011 there is no pause. (When the map library raises nothing, every code is followed
  by its pause, as \<open>plotOne_pause\<close> shows.)
\<close>

theorem pause_skipped_after_rendering_error:
  "trace (snd (plotAllZipcodes rejecting (config0 [''1951'', ''2011'']) page0)) =
     [StatusText LoadingAll,
      StatusText (Loading ''1951''),
      Fetch (pdokUrl ''1951'') [],
      Fetch (nominatimUrl ''1951'') [(''User-Agent'', ''Kakona/1.0'')],
      ConsoleError ''Error processing zipcode 1951:'',
      StatusText (Loading ''2011''),
      Fetch (pdokUrl ''2011'') [],
      Fetch (nominatimUrl ''2011'') [(''User-Agent'', ''Kakona/1.0'')],
      ConsoleWarn ''Could not find geometry for zipcode: 2011'',
      Delay 500,
      StatusText (Loaded 0 2)]"
proof -
  have g: "geoJSON_raises rejecting
      \<lparr> ftype = ''Feature'', postcode = ''1951'', geometry = unknownGeometry \<rparr>"
    by (simp add: rejecting_def)
  show ?thesis
    by (simp add: plotAllZipcodes_def plotOne_def plotZipcode_def rejecting_1951 rejecting_2011 g
        emit_def setStatus_def config0_def page0_def)
qed

section \<open>Properties of the search controller\<close>

lemma plotZipcodeWithStyle_trace:
  "trace (snd (plotZipcodeWithStyle e z c p w)) = trace (snd (fetchZipcodeGeometry e z w))"
  by (simp add: plotZipcodeWithStyle_def split: prod.splits option.splits)

lemma plotZipcodeWithStyle_resultDiv:
  "resultDiv (snd (plotZipcodeWithStyle e z c p w)) = resultDiv w"
proof -
  obtain g w1 where r: "fetchZipcodeGeometry e z w = (g, w1)"
    by (cases "fetchZipcodeGeometry e z w") auto
  then have "resultDiv w1 = resultDiv w"
    using fetchZipcodeGeometry_fields [of e z w] by simp
  with r show ?thesis
    by (simp add: plotZipcodeWithStyle_def split: option.splits)
qed

lemma plotZipcodeWithStyle_found:
  assumes "fst (fetchZipcodeGeometry e z w) = Some g" and "\<not> geoJSON_raises e g"
  shows "fst (plotZipcodeWithStyle e z c p w) = None"
    and "searchLayerGroup (snd (plotZipcodeWithStyle e z c p w)) =
      searchLayerGroup w @
        [\<lparr> drawn = g,
           style = \<lparr> sFillColor = c, sFillOpacity = 7 / 10, sColor = c, sWeight = 3 \<rparr>,
           popup = Some (''Postcode: '' @ z @ ''<br/><strong>''
                     @ (if p then ''POLLUTED WATER!'' else ''Safe to drink'')
                     @ ''</strong>'') \<rparr>]"
proof -
  obtain w1 where r: "fetchZipcodeGeometry e z w = (Some g, w1)"
    using assms(1) by (cases "fetchZipcodeGeometry e z w") auto
  then have "searchLayerGroup w1 = searchLayerGroup w"
    using fetchZipcodeGeometry_fields [of e z w] by simp
  with r assms(2) show "fst (plotZipcodeWithStyle e z c p w) = None"
    and "searchLayerGroup (snd (plotZipcodeWithStyle e z c p w)) =
      searchLayerGroup w @
        [\<lparr> drawn = g,
           style = \<lparr> sFillColor = c, sFillOpacity = 7 / 10, sColor = c, sWeight = 3 \<rparr>,
           popup = Some (''Postcode: '' @ z @ ''<br/><strong>''
                     @ (if p then ''POLLUTED WATER!'' else ''Safe to drink'')
                     @ ''</strong>'') \<rparr>]"
    by (simp_all add: plotZipcodeWithStyle_def)
qed

lemma zoomTo_fields [simp]:
  "searchLayerGroup (snd (zoomTo e g w)) = searchLayerGroup w"
  "resultDiv (snd (zoomTo e g w)) = resultDiv w"
  by (simp_all add: zoomTo_def Let_def split: option.splits json.splits)

lemma zoomTo_trace: "\<exists>t. trace (snd (zoomTo e g w)) = trace w @ t"
  by (simp add: zoomTo_def Let_def split: option.splits json.splits)

text \<open>What the \<open>try\<close> block leaves behind once the first resolution has raised nothing.\<close>

lemma searchBody_after_plot:
  assumes "fst (plotZipcodeWithStyle e z c p w) = None"
    and "c = (if z \<in> set (zipcodes cfg) then ''#e74c3c'' else ''#27ae60'')"
    and "p = (z \<in> set (zipcodes cfg))"
    and "resultDiv w = Some r"
  shows "searchLayerGroup (snd (searchBody e cfg z w)) =
           searchLayerGroup (snd (plotZipcodeWithStyle e z c p w))"
    and "resultDiv (snd (searchBody e cfg z w)) = Some (if p then Polluted else Safe)"
    and "\<exists>t u. trace (snd (searchBody e cfg z w)) =
           trace (snd (plotZipcodeWithStyle e z c p w))
             @ ResultText (if p then Polluted else Safe) # u"
proof -
  obtain w1 where w1: "plotZipcodeWithStyle e z c p w = (None, w1)"
    using assms(1) by (cases "plotZipcodeWithStyle e z c p w") auto
  have rd: "resultDiv w1 = Some r"
    using plotZipcodeWithStyle_resultDiv [of e z c p w] w1 assms(4) by simp
  let ?w2 = "setResult (if p then Polluted else Safe) w1"
  obtain found w3 where f: "fetchZipcodeGeometry e z ?w2 = (found, w3)"
    by (cases "fetchZipcodeGeometry e z ?w2") auto
  have sb: "searchBody e cfg z w = zoomTo e found w3"
    using w1 f assms(2,3) by (cases "z \<in> set (zipcodes cfg)") (auto simp: searchBody_def Let_def)
  have s3: "searchLayerGroup w3 = searchLayerGroup w1" "resultDiv w3 = Some (if p then Polluted else Safe)"
    using fetchZipcodeGeometry_fields [of e z ?w2] f rd by auto
  obtain t where t: "trace w3 = trace ?w2 @ Fetch (pdokUrl z) [] # t"
    using fetchZipcodeGeometry_trace [of e z ?w2] f by auto
  obtain u where u: "trace (snd (zoomTo e found w3)) = trace w3 @ u"
    using zoomTo_trace by blast
  show "searchLayerGroup (snd (searchBody e cfg z w)) =
           searchLayerGroup (snd (plotZipcodeWithStyle e z c p w))"
    using sb s3 w1 by simp
  show "resultDiv (snd (searchBody e cfg z w)) = Some (if p then Polluted else Safe)"
    using sb s3 by simp
  show "\<exists>t u. trace (snd (searchBody e cfg z w)) =
           trace (snd (plotZipcodeWithStyle e z c p w))
             @ ResultText (if p then Polluted else Safe) # u"
    using sb t u w1 rd by simp
qed

lemma searchBody_trace:
  "\<exists>u. trace (snd (searchBody e cfg z w)) = trace w @ Fetch (pdokUrl z) [] # u"
proof -
  let ?p = "z \<in> set (zipcodes cfg)"
  let ?c = "if ?p then ''#e74c3c'' else ''#27ae60''"
  obtain x w1 where w1: "plotZipcodeWithStyle e z ?c ?p w = (x, w1)"
    by (cases "plotZipcodeWithStyle e z ?c ?p w") auto
  obtain t where t: "trace w1 = trace w @ Fetch (pdokUrl z) [] # t"
    using fetchZipcodeGeometry_trace [of e z w] plotZipcodeWithStyle_trace [of e z ?c ?p w] w1
    by auto
  show ?thesis
  proof (cases x)
    case (Some ex)
    with w1 t show ?thesis
      by (cases "z \<in> set (zipcodes cfg)") (auto simp: searchBody_def Let_def)
  next
    case None
    let ?w2 = "setResult (if ?p then Polluted else Safe) w1"
    obtain found w3 where f: "fetchZipcodeGeometry e z ?w2 = (found, w3)"
      by (cases "fetchZipcodeGeometry e z ?w2") auto
    have sb: "searchBody e cfg z w = zoomTo e found w3"
      using w1 f None by (cases "z \<in> set (zipcodes cfg)") (auto simp: searchBody_def Let_def)
    obtain t2 where t2: "trace w3 = trace ?w2 @ t2"
      using fetchZipcodeGeometry_trace [of e z ?w2] f by auto
    obtain u where u: "trace (snd (zoomTo e found w3)) = trace w3 @ u"
      using zoomTo_trace by blast
    show ?thesis
      using sb t t2 u by simp
  qed
qed

lemma clearSearch_fields [simp]:
  "searchLayerGroup (clearSearch w) = []"
  "resultDiv (clearSearch w) = (if resultDiv w = None then None else Some Blank)"
  "trace (clearSearch w) = trace w @ (if resultDiv w = None then [] else [ResultText Blank])"
  "requests (clearSearch w) = requests w"
  by (simp_all add: clearSearch_def)

lemma searchZipcode_valid:
  assumes "resultDiv w = Some r" and "length (trimZipcode (js_trim input)) = 4"
  shows "searchZipcode e cfg input w =
     (case searchBody e cfg (trimZipcode (js_trim input)) (setResult Checking (clearSearch w)) of
        (None, w2) \<Rightarrow> w2
      | (Some x, w2) \<Rightarrow> setResult SearchError (emit (ConsoleError ''Search error:'') w2))"
proof -
  from assms(2) have "trimZipcode (js_trim input) \<noteq> []"
    by auto
  with assms show ?thesis
    by (simp add: searchZipcode_def Let_def)
qed

lemma search_renders_then_zooms:
  assumes "resultDiv w = Some r"
    and "z = trimZipcode (js_trim input)"
    and "length z = 4"
    and "fst (fetchZipcodeGeometry e z (setResult Checking (clearSearch w))) = Some g"
    and "\<not> geoJSON_raises e g"
  shows "(z \<in> set (zipcodes cfg) \<longrightarrow>
            searchLayerGroup (searchZipcode e cfg input w) =
              [\<lparr> drawn = g,
                 style = \<lparr> sFillColor = ''#e74c3c'', sFillOpacity = 7 / 10,
                           sColor = ''#e74c3c'', sWeight = 3 \<rparr>,
                 popup = Some (''Postcode: '' @ z
                           @ ''<br/><strong>POLLUTED WATER!</strong>'') \<rparr>]
          \<and> ResultText Polluted \<in> set (trace (searchZipcode e cfg input w))
          \<and> (resultDiv (searchZipcode e cfg input w) = Some Polluted
               \<or> resultDiv (searchZipcode e cfg input w) = Some SearchError))
       \<and> (z \<notin> set (zipcodes cfg) \<longrightarrow>
            searchLayerGroup (searchZipcode e cfg input w) =
              [\<lparr> drawn = g,
                 style = \<lparr> sFillColor = ''#27ae60'', sFillOpacity = 7 / 10,
                           sColor = ''#27ae60'', sWeight = 3 \<rparr>,
                 popup = Some (''Postcode: '' @ z
                           @ ''<br/><strong>Safe to drink</strong>'') \<rparr>]
          \<and> ResultText Safe \<in> set (trace (searchZipcode e cfg input w))
          \<and> (resultDiv (searchZipcode e cfg input w) = Some Safe
               \<or> resultDiv (searchZipcode e cfg input w) = Some SearchError))"
proof -
  let ?p = "z \<in> set (zipcodes cfg)"
  let ?c = "if ?p then ''#e74c3c'' else ''#27ae60''"
  let ?w2 = "setResult Checking (clearSearch w)"
  let ?l = "\<lparr> drawn = g,
              style = \<lparr> sFillColor = ?c, sFillOpacity = 7 / 10, sColor = ?c, sWeight = 3 \<rparr>,
              popup = Some (''Postcode: '' @ z @ ''<br/><strong>''
                        @ (if ?p then ''POLLUTED WATER!'' else ''Safe to drink'')
                        @ ''</strong>'') \<rparr>"
  have rd: "resultDiv ?w2 = Some Checking"
    using assms(1) by simp
  have pl: "fst (plotZipcodeWithStyle e z ?c ?p ?w2) = None"
    and sl: "searchLayerGroup (snd (plotZipcodeWithStyle e z ?c ?p ?w2)) = [?l]"
    using plotZipcodeWithStyle_found [OF assms(4,5), of ?c ?p] by simp_all
  obtain x w3 where sb: "searchBody e cfg z ?w2 = (x, w3)"
    by (cases "searchBody e cfg z ?w2") auto
  have a: "searchLayerGroup w3 = [?l]"
    and b: "resultDiv w3 = Some (if ?p then Polluted else Safe)"
    and c: "ResultText (if ?p then Polluted else Safe) \<in> set (trace w3)"
    using searchBody_after_plot [OF pl refl refl rd] sl sb by auto
  have fin: "searchZipcode e cfg input w =
      (case x of None \<Rightarrow> w3
       | Some ex \<Rightarrow> setResult SearchError (emit (ConsoleError ''Search error:'') w3))"
    using searchZipcode_valid [OF assms(1), of input e cfg] assms(2,3) sb
    by (cases x) simp_all
  have "searchLayerGroup (searchZipcode e cfg input w) = [?l]"
    and "ResultText (if ?p then Polluted else Safe) \<in> set (trace (searchZipcode e cfg input w))"
    and "resultDiv (searchZipcode e cfg input w) = Some (if ?p then Polluted else Safe)
          \<or> resultDiv (searchZipcode e cfg input w) = Some SearchError"
    unfolding fin using a b c by (cases x; simp)+
  then show ?thesis
    by (cases "z \<in> set (zipcodes cfg)") simp_all
qed

lemma zoomTo_point:
  "zoomTo e (Some \<lparr> ftype = t, postcode = z, geometry = pointGeometry \<rparr>) w = (Some TypeError, w)"
  by (simp add: zoomTo_def pointGeometry_def js_get_opt_def)

text \<open>
  Claim C7, at a code that the secondary service resolves to a point. The code 1951 is in
  the configured list, its resolution delivers a feature and the map library accepts it.
  The search draws it in red with the popup of polluted water and writes the
  polluted-water message; the zoom that follows then reads \<open>coordinates[0]\<close>, a number,
  calls \<open>map\<close> on it and raises, and the handler replaces the message by the error text.
\<close>

theorem point_search_ends_in_error:
  "trimZipcode (js_trim ''1951'') = ''1951''
   \<and> ''1951'' \<in> set (zipcodes (config0 [''1951'', ''2011'']))
   \<and> fst (fetchZipcodeGeometry (secondaryOnly pointGeometry) ''1951''
            (setResult Checking (clearSearch page0))) =
        Some \<lparr> ftype = ''Feature'', postcode = ''1951'', geometry = pointGeometry \<rparr>
   \<and> \<not> geoJSON_raises (secondaryOnly pointGeometry)
          \<lparr> ftype = ''Feature'', postcode = ''1951'', geometry = pointGeometry \<rparr>
   \<and> searchZipcode (secondaryOnly pointGeometry) (config0 [''1951'', ''2011'']) ''1951'' page0 =
       \<lparr> statusDiv = Some LoadingAll,
         resultDiv = Some SearchError,
         layerGroup = [],
         searchLayerGroup =
           [\<lparr> drawn = \<lparr> ftype = ''Feature'', postcode = ''1951'', geometry = pointGeometry \<rparr>,
              style = \<lparr> sFillColor = ''#e74c3c'', sFillOpacity = 7 / 10,
                        sColor = ''#e74c3c'', sWeight = 3 \<rparr>,
              popup = Some ''Postcode: 1951<br/><strong>POLLUTED WATER!</strong>'' \<rparr>],
         requests = 4,
         trace =
           [ResultText Blank, ResultText Checking,
            Fetch (pdokUrl ''1951'') [],
            Fetch (nominatimUrl ''1951'') [(''User-Agent'', ''Kakona/1.0'')],
            ResultText Polluted,
            Fetch (pdokUrl ''1951'') [],
            Fetch (nominatimUrl ''1951'') [(''User-Agent'', ''Kakona/1.0'')],
            ConsoleError ''Search error:'',
            ResultText SearchError] \<rparr>"
proof -
  have z: "trimZipcode (js_trim ''1951'') = ''1951''"
    by code_simp
  have t: "js_truthy (Some pointGeometry)"
    by (simp add: pointGeometry_def)
  have g: "\<not> geoJSON_raises (secondaryOnly pointGeometry) f" for f
    by (simp add: secondaryOnly_def offline_def)
  have s: "searchZipcode (secondaryOnly pointGeometry) (config0 [''1951'', ''2011'']) ''1951'' page0 =
       \<lparr> statusDiv = Some LoadingAll,
         resultDiv = Some SearchError,
         layerGroup = [],
         searchLayerGroup =
           [\<lparr> drawn = \<lparr> ftype = ''Feature'', postcode = ''1951'', geometry = pointGeometry \<rparr>,
              style = \<lparr> sFillColor = ''#e74c3c'', sFillOpacity = 7 / 10,
                        sColor = ''#e74c3c'', sWeight = 3 \<rparr>,
              popup = Some ''Postcode: 1951<br/><strong>POLLUTED WATER!</strong>'' \<rparr>],
         requests = 4,
         trace =
           [ResultText Blank, ResultText Checking,
            Fetch (pdokUrl ''1951'') [],
            Fetch (nominatimUrl ''1951'') [(''User-Agent'', ''Kakona/1.0'')],
            ResultText Polluted,
            Fetch (pdokUrl ''1951'') [],
            Fetch (nominatimUrl ''1951'') [(''User-Agent'', ''Kakona/1.0'')],
            ConsoleError ''Search error:'',
            ResultText SearchError] \<rparr>"
    by (simp add: searchZipcode_def searchBody_def plotZipcodeWithStyle_def z g
        secondaryOnly_resolves [OF t] zoomTo_point clearSearch_def setResult_def emit_def
        page0_def config0_def Let_def)
  show ?thesis
    using z g s by (simp add: secondaryOnly_resolves [OF t] config0_def)
qed

text \<open>
  Claim C8, as the program has it. The input is first trimmed of surrounding white space
  and then stripped of its letters. When what remains, \<open>trimZipcode (input.trim())\<close>, is
  empty or not four characters long, the search issues no request: the request counter is
  unchanged and the only events are the two writes to the result element, the second one
  the invalid-input message (a page without that element is left as it is).
\<close>

theorem invalid_search_stops:
  assumes "trimZipcode (js_trim input) = [] \<or> length (trimZipcode (js_trim input)) \<noteq> 4"
  shows "requests (searchZipcode e cfg input w) = requests w
       \<and> trace (searchZipcode e cfg input w) =
           trace w @ (if resultDiv w = None then []
                      else [ResultText Blank, ResultText InvalidInput])
       \<and> resultDiv (searchZipcode e cfg input w) =
           (if resultDiv w = None then None else Some InvalidInput)"
  using assms by (cases "resultDiv w") (auto simp: searchZipcode_def Let_def)

theorem invalid_search_stops_witness:
  "trimZipcode (js_trim ''12'') = ''12''
   \<and> trimZipcode (js_trim ''AB12'') = ''12''
   \<and> requests (searchZipcode offline (config0 [''1951'']) ''AB12'' page0) = 0
   \<and> trace (searchZipcode offline (config0 [''1951'']) ''AB12'' page0) =
        [ResultText Blank, ResultText InvalidInput]
   \<and> resultDiv (searchZipcode offline (config0 [''1951'']) ''AB12'' page0) = Some InvalidInput"
proof -
  have a: "trimZipcode (js_trim ''12'') = ''12''" and b: "trimZipcode (js_trim ''AB12'') = ''12''"
    by code_simp+
  have "trimZipcode (js_trim ''AB12'') = [] \<or> length (trimZipcode (js_trim ''AB12'')) \<noteq> 4"
    by (simp add: b)
  from invalid_search_stops [OF this, of offline "config0 [''1951'']" page0] a b show ?thesis
    by (simp add: page0_def)
qed

lemma offline_resolves_nothing:
  "fetchZipcodeGeometry offline z w =
     (None, w\<lparr>requests := requests w + 1,
              trace := trace w @ [Fetch (pdokUrl z) [],
                         ConsoleError (''Error fetching zipcode '' @ z @ '':'')]\<rparr>)"
  by (simp add: fetchZipcodeGeometry_def fetch_def emit_def offline_def)

text \<open>
  Claim C8 as stated fails: the input \<open>1234\<close> with a space before and after it keeps its
  six characters when only its letters are stripped, and yet the search trims it to
  \<open>1234\<close>, issues its two requests and reports an outcome other than invalid input.
\<close>

theorem padded_code_is_searched:
  "trimZipcode '' 1234 '' = '' 1234 ''
   \<and> length (trimZipcode '' 1234 '') = 6
   \<and> requests (searchZipcode offline (config0 [''1951'']) '' 1234 '' page0) = 2
   \<and> trace (searchZipcode offline (config0 [''1951'']) '' 1234 '' page0) =
        [ResultText Blank, ResultText Checking,
         Fetch (pdokUrl ''1234'') [], ConsoleError ''Error fetching zipcode 1234:'',
         ResultText Safe,
         Fetch (pdokUrl ''1234'') [], ConsoleError ''Error fetching zipcode 1234:'']
   \<and> resultDiv (searchZipcode offline (config0 [''1951'']) '' 1234 '' page0) = Some Safe"
proof -
  have a: "trimZipcode '' 1234 '' = '' 1234 ''" and z: "trimZipcode (js_trim '' 1234 '') = ''1234''"
    by code_simp+
  have s: "searchZipcode offline (config0 [''1951'']) '' 1234 '' page0 =
      page0\<lparr>resultDiv := Some Safe, requests := 2,
        trace := [ResultText Blank, ResultText Checking,
         Fetch (pdokUrl ''1234'') [], ConsoleError ''Error fetching zipcode 1234:'',
         ResultText Safe,
         Fetch (pdokUrl ''1234'') [], ConsoleError ''Error fetching zipcode 1234:'']\<rparr>"
    by (simp add: searchZipcode_def searchBody_def plotZipcodeWithStyle_def z
        offline_resolves_nothing zoomTo_def clearSearch_def setResult_def emit_def
        page0_def config0_def Let_def)
  show ?thesis
    using a by (simp add: s)
qed

text \<open>
  Claim C9. The inputs \<open>12.4\<close> and \<open>1 23\<close> contain no letter and are four characters long,
  so they pass the validation although they are not four decimal digits, and the next
  thing the search does after "Checking..." is the request to the primary service for
  just that string.
\<close>

theorem nondigit_code_is_resolved:
  assumes "resultDiv w = Some r"
  shows "trimZipcode (js_trim ''12.4'') = ''12.4'' \<and> length ''12.4'' = 4
       \<and> \<not> list_all is_digit ''12.4''
       \<and> (\<exists>u. trace (searchZipcode e cfg ''12.4'' w) =
             trace w @ [ResultText Blank, ResultText Checking, Fetch (pdokUrl ''12.4'') []] @ u)
       \<and> trimZipcode (js_trim ''1 23'') = ''1 23'' \<and> length ''1 23'' = 4
       \<and> \<not> list_all is_digit ''1 23''
       \<and> (\<exists>u. trace (searchZipcode e cfg ''1 23'' w) =
             trace w @ [ResultText Blank, ResultText Checking, Fetch (pdokUrl ''1 23'') []] @ u)"
proof -
  have t: "\<exists>u. trace (searchZipcode e cfg input w) =
             trace w @ [ResultText Blank, ResultText Checking, Fetch (pdokUrl z) []] @ u"
    if z: "trimZipcode (js_trim input) = z" and l: "length z = 4" for input z
  proof -
    define w2 where "w2 = setResult Checking (clearSearch w)"
    obtain x w3 where sb: "searchBody e cfg z w2 = (x, w3)"
      by (cases "searchBody e cfg z w2") auto
    obtain u where u: "trace w3 = trace w2 @ Fetch (pdokUrl z) [] # u"
      using searchBody_trace [of e cfg z w2] sb by auto
    have "trace w2 = trace w @ [ResultText Blank, ResultText Checking]"
      unfolding w2_def using assms by simp
    with u have u': "trace w3 = trace w @ [ResultText Blank, ResultText Checking,
        Fetch (pdokUrl z) []] @ u"
      by simp
    have "searchZipcode e cfg input w =
        (case x of None \<Rightarrow> w3
         | Some ex \<Rightarrow> setResult SearchError (emit (ConsoleError ''Search error:'') w3))"
      using searchZipcode_valid [OF assms, of input e cfg] z l sb
      unfolding w2_def by (cases x) simp_all
    with u' show ?thesis
      by (cases x) simp_all
  qed
  have a: "trimZipcode (js_trim ''12.4'') = ''12.4''" and b: "trimZipcode (js_trim ''1 23'') = ''1 23''"
    by code_simp+
  have c: "\<not> list_all is_digit ''12.4''" and d: "\<not> list_all is_digit ''1 23''"
    by (simp_all add: is_digit_def)
  show ?thesis
    using a b c d t [OF a] t [OF b] by simp
qed

theorem nondigit_code_is_resolved_witness:
  "\<exists>u. trace (searchZipcode offline (config0 [''1951'']) ''12.4'' page0) =
      [ResultText Blank, ResultText Checking, Fetch (pdokUrl ''12.4'') []] @ u"
proof -
  have "resultDiv page0 = Some Blank" and t: "trace page0 = []"
    by (simp_all add: page0_def)
  from nondigit_code_is_resolved [OF this(1), of offline "config0 [''1951'']"] t show ?thesis
    by simp
qed

end
